theory Spec2Isabelle
  imports Complex_Main "HOL-Library.Word" "HOL-Library.Log_Nat"
begin

section \<open>JavaScript numbers\<close>

text \<open>
  The calculator of \<^verbatim>\<open>src/foodpl.jsx\<close> computes with JavaScript numbers. A number is
  modelled as a finite value or one of the three non-finite values. Finite values are
  exact rationals: the rounding of IEEE doubles, overflow of a finite result to an
  infinity and the sign of zero are outside the model. Arithmetic on the non-finite
  values follows IEEE 754 (\<open>Infinity * 0 = NaN\<close>, \<open>Infinity - Infinity = NaN\<close>,
  \<open>1 / 0 = Infinity\<close>, every comparison with \<open>NaN\<close> is false).

  Where the order of two multiplications decides a property, the products are read a
  second time as binary64 products, each rounded to the nearest double: see the section
  on binary64 products below.
\<close>

datatype jsnum = Fin rat | PInf | NInf | NaN

fun isFinite :: "jsnum \<Rightarrow> bool" where
  "isFinite (Fin _) = True"
| "isFinite _ = False"

fun js_neg :: "jsnum \<Rightarrow> jsnum" where
  "js_neg (Fin a) = Fin (- a)"
| "js_neg PInf = NInf"
| "js_neg NInf = PInf"
| "js_neg NaN = NaN"

fun js_add :: "jsnum \<Rightarrow> jsnum \<Rightarrow> jsnum" where
  "js_add (Fin a) (Fin b) = Fin (a + b)"
| "js_add NaN _ = NaN"
| "js_add _ NaN = NaN"
| "js_add PInf NInf = NaN"
| "js_add NInf PInf = NaN"
| "js_add PInf _ = PInf"
| "js_add _ PInf = PInf"
| "js_add NInf _ = NInf"
| "js_add _ NInf = NInf"

definition js_sub :: "jsnum \<Rightarrow> jsnum \<Rightarrow> jsnum" where
  "js_sub a b = js_add a (js_neg b)"

fun js_mul :: "jsnum \<Rightarrow> jsnum \<Rightarrow> jsnum" where
  "js_mul (Fin a) (Fin b) = Fin (a * b)"
| "js_mul NaN _ = NaN"
| "js_mul _ NaN = NaN"
| "js_mul (Fin a) PInf = (if a = 0 then NaN else if 0 < a then PInf else NInf)"
| "js_mul (Fin a) NInf = (if a = 0 then NaN else if 0 < a then NInf else PInf)"
| "js_mul PInf (Fin b) = (if b = 0 then NaN else if 0 < b then PInf else NInf)"
| "js_mul NInf (Fin b) = (if b = 0 then NaN else if 0 < b then NInf else PInf)"
| "js_mul PInf PInf = PInf"
| "js_mul PInf NInf = NInf"
| "js_mul NInf PInf = NInf"
| "js_mul NInf NInf = PInf"

fun js_div :: "jsnum \<Rightarrow> jsnum \<Rightarrow> jsnum" where
  "js_div (Fin a) (Fin b) =
     (if b = 0 then (if a = 0 then NaN else if 0 < a then PInf else NInf)
      else Fin (a / b))"
| "js_div NaN _ = NaN"
| "js_div _ NaN = NaN"
| "js_div (Fin a) PInf = Fin 0"
| "js_div (Fin a) NInf = Fin 0"
| "js_div PInf (Fin b) = (if 0 \<le> b then PInf else NInf)"
| "js_div NInf (Fin b) = (if 0 \<le> b then NInf else PInf)"
| "js_div PInf PInf = NaN"
| "js_div PInf NInf = NaN"
| "js_div NInf PInf = NaN"
| "js_div NInf NInf = NaN"

text \<open>The comparison \<open>a < b\<close>; \<open>a > b\<close> is \<open>js_lt b a\<close>.\<close>

fun js_lt :: "jsnum \<Rightarrow> jsnum \<Rightarrow> bool" where
  "js_lt (Fin a) (Fin b) = (a < b)"
| "js_lt NaN _ = False"
| "js_lt _ NaN = False"
| "js_lt _ NInf = False"
| "js_lt PInf _ = False"
| "js_lt NInf _ = True"
| "js_lt _ PInf = True"

definition js_gt :: "jsnum \<Rightarrow> jsnum \<Rightarrow> bool" where
  "js_gt a b = js_lt b a"

text \<open>The comparison \<open>a <= b\<close>.\<close>

fun js_le :: "jsnum \<Rightarrow> jsnum \<Rightarrow> bool" where
  "js_le (Fin a) (Fin b) = (a \<le> b)"
| "js_le NaN _ = False"
| "js_le _ NaN = False"
| "js_le NInf _ = True"
| "js_le _ PInf = True"
| "js_le PInf _ = False"
| "js_le _ NInf = False"

text \<open>\<open>Math.max\<close> and \<open>Math.min\<close> of two arguments: \<open>NaN\<close> if either is.\<close>

fun Math_max :: "jsnum \<Rightarrow> jsnum \<Rightarrow> jsnum" where
  "Math_max NaN _ = NaN"
| "Math_max _ NaN = NaN"
| "Math_max a b = (if js_lt a b then b else a)"

fun Math_min :: "jsnum \<Rightarrow> jsnum \<Rightarrow> jsnum" where
  "Math_min NaN _ = NaN"
| "Math_min _ NaN = NaN"
| "Math_min a b = (if js_lt b a then b else a)"

section \<open>Utilities\<close>

text \<open>\<^verbatim>\<open>const clamp = (n, min, max) => Math.min(max, Math.max(min, n))\<close>\<close>

definition clamp :: "jsnum \<Rightarrow> jsnum \<Rightarrow> jsnum \<Rightarrow> jsnum" where
  "clamp n lo hi = Math_min hi (Math_max lo n)"

text \<open>
  \<^verbatim>\<open>function safeDiv(a, b) {
    if (!Number.isFinite(a) || !Number.isFinite(b) || b === 0) return 0;
    return a / b; }\<close>
\<close>

definition safeDiv :: "jsnum \<Rightarrow> jsnum \<Rightarrow> jsnum" where
  "safeDiv a b =
     (if \<not> isFinite a \<or> \<not> isFinite b \<or> b = Fin 0 then Fin 0 else js_div a b)"

section \<open>Presets\<close>

datatype IndustryKey = izakaya | yakiniku | cafe | ramen | restaurant | takeout

datatype ScenarioKey = low | standard | high

datatype UnitType = per_person | per_group

record Rates =
  food :: jsnum
  labor :: jsnum
  rent :: jsnum

text \<open>
  \<^verbatim>\<open>INDUSTRY_PRESETS[industry].scenarios[scenario]\<close>: the lookup is by enum key, so it is
  total. The display labels of the industries are used by the page only.
\<close>

fun INDUSTRY_PRESETS :: "IndustryKey \<Rightarrow> ScenarioKey \<Rightarrow> Rates" where
  "INDUSTRY_PRESETS izakaya low = \<lparr>food = Fin 0.28, labor = Fin 0.26, rent = Fin 0.09\<rparr>"
| "INDUSTRY_PRESETS izakaya standard = \<lparr>food = Fin 0.30, labor = Fin 0.30, rent = Fin 0.10\<rparr>"
| "INDUSTRY_PRESETS izakaya high = \<lparr>food = Fin 0.33, labor = Fin 0.34, rent = Fin 0.12\<rparr>"
| "INDUSTRY_PRESETS yakiniku low = \<lparr>food = Fin 0.34, labor = Fin 0.24, rent = Fin 0.09\<rparr>"
| "INDUSTRY_PRESETS yakiniku standard = \<lparr>food = Fin 0.38, labor = Fin 0.28, rent = Fin 0.10\<rparr>"
| "INDUSTRY_PRESETS yakiniku high = \<lparr>food = Fin 0.42, labor = Fin 0.32, rent = Fin 0.12\<rparr>"
| "INDUSTRY_PRESETS cafe low = \<lparr>food = Fin 0.24, labor = Fin 0.28, rent = Fin 0.10\<rparr>"
| "INDUSTRY_PRESETS cafe standard = \<lparr>food = Fin 0.28, labor = Fin 0.32, rent = Fin 0.12\<rparr>"
| "INDUSTRY_PRESETS cafe high = \<lparr>food = Fin 0.32, labor = Fin 0.36, rent = Fin 0.14\<rparr>"
| "INDUSTRY_PRESETS ramen low = \<lparr>food = Fin 0.26, labor = Fin 0.22, rent = Fin 0.08\<rparr>"
| "INDUSTRY_PRESETS ramen standard = \<lparr>food = Fin 0.30, labor = Fin 0.25, rent = Fin 0.10\<rparr>"
| "INDUSTRY_PRESETS ramen high = \<lparr>food = Fin 0.34, labor = Fin 0.28, rent = Fin 0.12\<rparr>"
| "INDUSTRY_PRESETS restaurant low = \<lparr>food = Fin 0.28, labor = Fin 0.26, rent = Fin 0.09\<rparr>"
| "INDUSTRY_PRESETS restaurant standard = \<lparr>food = Fin 0.32, labor = Fin 0.30, rent = Fin 0.10\<rparr>"
| "INDUSTRY_PRESETS restaurant high = \<lparr>food = Fin 0.36, labor = Fin 0.34, rent = Fin 0.12\<rparr>"
| "INDUSTRY_PRESETS takeout low = \<lparr>food = Fin 0.32, labor = Fin 0.18, rent = Fin 0.06\<rparr>"
| "INDUSTRY_PRESETS takeout standard = \<lparr>food = Fin 0.35, labor = Fin 0.20, rent = Fin 0.08\<rparr>"
| "INDUSTRY_PRESETS takeout high = \<lparr>food = Fin 0.38, labor = Fin 0.24, rent = Fin 0.10\<rparr>"

section \<open>Strings and patterns\<close>

text \<open>
  A JavaScript string is a sequence of UTF-16 code units. Every character of the area
  table lies in the Basic Multilingual Plane, so each is one code unit, written here
  by its code point.
\<close>

type_synonym jsstring = "16 word list"

text \<open>
  \<^verbatim>\<open>String.prototype.trim\<close> removes white space and line terminators from both ends:
  TAB, LF, VT, FF, CR, SPACE, NBSP, U+1680, U+2000 to U+200A, U+2028, U+2029, U+202F,
  U+205F, U+3000 and U+FEFF.
\<close>

definition isWhiteSpace :: "16 word \<Rightarrow> bool" where
  "isWhiteSpace c =
     (c \<in> {0x0009, 0x000A, 0x000B, 0x000C, 0x000D, 0x0020, 0x00A0, 0x1680,
            0x2000, 0x2001, 0x2002, 0x2003, 0x2004, 0x2005, 0x2006, 0x2007, 0x2008,
            0x2009, 0x200A, 0x2028, 0x2029, 0x202F, 0x205F, 0x3000, 0xFEFF})"

definition trim :: "jsstring \<Rightarrow> jsstring" where
  "trim s = rev (dropWhile isWhiteSpace (rev (dropWhile isWhiteSpace s)))"

text \<open>
  Every pattern of the area table is an alternation of literal strings with no flags
  (\<^verbatim>\<open>/a|b|c/\<close>), so \<^verbatim>\<open>test\<close> keeps no state between calls. The matcher tries
  each start position from the left and, at each, the alternatives in order.
\<close>

datatype RegExp = Alternatives "jsstring list"

text \<open>\<^verbatim>\<open>Array.prototype.some\<close>: stops at the first element that satisfies the predicate.\<close>

fun some :: "('a \<Rightarrow> bool) \<Rightarrow> 'a list \<Rightarrow> bool" where
  "some p [] = False"
| "some p (x # xs) = (if p x then True else some p xs)"

fun literal_at :: "jsstring \<Rightarrow> jsstring \<Rightarrow> bool" where
  "literal_at [] s = True"
| "literal_at (c # cs) [] = False"
| "literal_at (c # cs) (d # ds) = (c = d \<and> literal_at cs ds)"

fun search :: "jsstring list \<Rightarrow> jsstring \<Rightarrow> bool" where
  "search alts [] = some (\<lambda>l. literal_at l []) alts"
| "search alts (c # cs) =
     (if some (\<lambda>l. literal_at l (c # cs)) alts then True else search alts cs)"

fun test :: "RegExp \<Rightarrow> jsstring \<Rightarrow> bool" where
  "test (Alternatives alts) s = search alts s"

section \<open>Area and rent master\<close>

datatype AreaKey =
  tokyo_core | tokyo_suburb | osaka_core | osaka_suburb | nagoya_core | kyoto_core
  | regional_city | rural

record AreaMaster =
  key :: AreaKey
  label :: jsstring
  baseRentPerTsubo :: jsnum
  patterns :: "RegExp list"

definition tokyo_core_label :: jsstring where
  "tokyo_core_label = [0x6771, 0x4EAC, 0x0020, 0x90FD, 0x5FC3, 0xFF08, 0x90FD, 0x5FC3,
   0x90E8, 0x30FB, 0x0032, 0x0033, 0x533A, 0x4E2D, 0x5FC3, 0xFF09]"

definition tokyo_core_re1 :: RegExp where
  "tokyo_core_re1 = Alternatives [[0x6771, 0x4EAC, 0x90FD]]"

definition tokyo_core_re2 :: RegExp where
  "tokyo_core_re2 = Alternatives [[0x6E0B, 0x8C37], [0x65B0, 0x5BBF], [0x6E2F, 0x533A],
   [0x4E2D, 0x592E, 0x533A], [0x5343, 0x4EE3, 0x7530, 0x533A], [0x54C1, 0x5DDD], [0x6C60,
   0x888B], [0x6075, 0x6BD4, 0x5BFF], [0x516D, 0x672C, 0x6728], [0x9280, 0x5EA7]]"

definition tokyo_suburb_label :: jsstring where
  "tokyo_suburb_label = [0x6771, 0x4EAC, 0x0020, 0x8FD1, 0x90CA, 0xFF08, 0x0032, 0x0033,
   0x533A, 0x5916, 0x30FB, 0x8FD1, 0x90CA, 0xFF09]"

definition tokyo_suburb_re1 :: RegExp where
  "tokyo_suburb_re1 = Alternatives [[0x6771, 0x4EAC, 0x90FD]]"

definition tokyo_suburb_re2 :: RegExp where
  "tokyo_suburb_re2 = Alternatives [[0x7ACB, 0x5DDD], [0x753A, 0x7530], [0x516B, 0x738B,
   0x5B50], [0x5E9C, 0x4E2D], [0x8ABF, 0x5E03], [0x6B66, 0x8535], [0x591A, 0x6469]]"

definition osaka_core_label :: jsstring where
  "osaka_core_label = [0x5927, 0x962A, 0x0020, 0x90FD, 0x5FC3, 0xFF08, 0x6885, 0x7530,
   0x002F, 0x96E3, 0x6CE2, 0x002F, 0x5FC3, 0x658E, 0x6A4B, 0x306A, 0x3069, 0xFF09]"

definition osaka_core_re1 :: RegExp where
  "osaka_core_re1 = Alternatives [[0x5927, 0x962A, 0x5E9C]]"

definition osaka_core_re2 :: RegExp where
  "osaka_core_re2 = Alternatives [[0x5317, 0x533A], [0x4E2D, 0x592E, 0x533A], [0x897F,
   0x533A], [0x5929, 0x738B, 0x5BFA], [0x96E3, 0x6CE2], [0x6885, 0x7530], [0x5FC3, 0x658E,
   0x6A4B], [0x672C, 0x753A]]"

definition osaka_suburb_label :: jsstring where
  "osaka_suburb_label = [0x5927, 0x962A, 0x0020, 0x8FD1, 0x90CA, 0xFF08, 0x5927, 0x962A,
   0x5E02, 0x5916, 0x30FB, 0x5317, 0x6442, 0x30FB, 0x6771, 0x5927, 0x962A, 0x306A, 0x3069,
   0xFF09]"

definition osaka_suburb_re1 :: RegExp where
  "osaka_suburb_re1 = Alternatives [[0x5927, 0x962A, 0x5E9C]]"

definition osaka_suburb_re2 :: RegExp where
  "osaka_suburb_re2 = Alternatives [[0x5439, 0x7530], [0x8C4A, 0x4E2D], [0x6771, 0x5927,
   0x962A], [0x583A], [0x679A, 0x65B9], [0x9AD8, 0x69FB], [0x5B88, 0x53E3], [0x516B,
   0x5C3E]]"

definition kyoto_core_label :: jsstring where
  "kyoto_core_label = [0x4EAC, 0x90FD, 0x0020, 0x4E2D, 0x5FC3, 0xFF08, 0x56DB, 0x6761,
   0x002F, 0x6CB3, 0x539F, 0x753A, 0x002F, 0x70CF, 0x4E38, 0x306A, 0x3069, 0xFF09]"

definition kyoto_core_re1 :: RegExp where
  "kyoto_core_re1 = Alternatives [[0x4EAC, 0x90FD, 0x5E9C]]"

definition kyoto_core_re2 :: RegExp where
  "kyoto_core_re2 = Alternatives [[0x4E2D, 0x4EAC, 0x533A], [0x4E0B, 0x4EAC, 0x533A],
   [0x56DB, 0x6761], [0x6CB3, 0x539F, 0x753A], [0x70CF, 0x4E38], [0x7947, 0x5712]]"

definition nagoya_core_label :: jsstring where
  "nagoya_core_label = [0x540D, 0x53E4, 0x5C4B, 0x0020, 0x4E2D, 0x5FC3, 0xFF08, 0x6804,
   0x002F, 0x540D, 0x99C5, 0x306A, 0x3069, 0xFF09]"

definition nagoya_core_re1 :: RegExp where
  "nagoya_core_re1 = Alternatives [[0x611B, 0x77E5, 0x770C]]"

definition nagoya_core_re2 :: RegExp where
  "nagoya_core_re2 = Alternatives [[0x540D, 0x53E4, 0x5C4B], [0x6804], [0x540D, 0x99C5],
   [0x4E2D, 0x533A]]"

definition regional_city_label :: jsstring where
  "regional_city_label = [0x5730, 0x65B9, 0x90FD, 0x5E02, 0xFF08, 0x99C5, 0x524D, 0x30FB,
   0x4E2D, 0x5FC3, 0x8857, 0xFF09]"

definition regional_city_re1 :: RegExp where
  "regional_city_re1 = Alternatives [[0x5948, 0x826F, 0x770C], [0x5175, 0x5EAB, 0x770C],
   [0x6ECB, 0x8CC0, 0x770C], [0x548C, 0x6B4C, 0x5C71, 0x770C], [0x798F, 0x5CA1, 0x770C],
   [0x5E83, 0x5CF6, 0x770C], [0x5BAE, 0x57CE, 0x770C], [0x5317, 0x6D77, 0x9053]]"

definition rural_label :: jsstring where
  "rural_label = [0x90CA, 0x5916, 0x30FB, 0x5730, 0x65B9, 0xFF08, 0x30ED, 0x30FC, 0x30C9,
   0x30B5, 0x30A4, 0x30C9, 0x002F, 0x4F4F, 0x5B85, 0x5730, 0x5BC4, 0x308A, 0xFF09]"

definition rural_re1 :: RegExp where
  "rural_re1 = Alternatives [[0x90E1], [0x753A], [0x6751]]"


definition AREA_MASTER :: "AreaMaster list" where
  "AREA_MASTER =
     [\<lparr>key = tokyo_core, label = tokyo_core_label, baseRentPerTsubo = Fin 35000,
        patterns = [tokyo_core_re1, tokyo_core_re2]\<rparr>,
      \<lparr>key = tokyo_suburb, label = tokyo_suburb_label, baseRentPerTsubo = Fin 25000,
        patterns = [tokyo_suburb_re1, tokyo_suburb_re2]\<rparr>,
      \<lparr>key = osaka_core, label = osaka_core_label, baseRentPerTsubo = Fin 28000,
        patterns = [osaka_core_re1, osaka_core_re2]\<rparr>,
      \<lparr>key = osaka_suburb, label = osaka_suburb_label, baseRentPerTsubo = Fin 20000,
        patterns = [osaka_suburb_re1, osaka_suburb_re2]\<rparr>,
      \<lparr>key = kyoto_core, label = kyoto_core_label, baseRentPerTsubo = Fin 24000,
        patterns = [kyoto_core_re1, kyoto_core_re2]\<rparr>,
      \<lparr>key = nagoya_core, label = nagoya_core_label, baseRentPerTsubo = Fin 22000,
        patterns = [nagoya_core_re1, nagoya_core_re2]\<rparr>,
      \<lparr>key = regional_city, label = regional_city_label, baseRentPerTsubo = Fin 15000,
        patterns = [regional_city_re1]\<rparr>,
      \<lparr>key = rural, label = rural_label, baseRentPerTsubo = Fin 9000,
        patterns = [rural_re1]\<rparr>]"

datatype StationDistanceKey = walk_1_3 | walk_4_7 | walk_8_12 | walk_13_plus | unknown

text \<open>\<^verbatim>\<open>STATION_DISTANCE[k].factor\<close> and \<^verbatim>\<open>TRADE_AREA[k].factor\<close>.\<close>

fun STATION_DISTANCE_factor :: "StationDistanceKey \<Rightarrow> jsnum" where
  "STATION_DISTANCE_factor walk_1_3 = Fin 1.15"
| "STATION_DISTANCE_factor walk_4_7 = Fin 1.0"
| "STATION_DISTANCE_factor walk_8_12 = Fin 0.9"
| "STATION_DISTANCE_factor walk_13_plus = Fin 0.8"
| "STATION_DISTANCE_factor unknown = Fin 1.0"

datatype TradeAreaKey = downtown | station_front | office | residential | roadside | tourism

fun TRADE_AREA_factor :: "TradeAreaKey \<Rightarrow> jsnum" where
  "TRADE_AREA_factor downtown = Fin 1.2"
| "TRADE_AREA_factor station_front = Fin 1.1"
| "TRADE_AREA_factor office = Fin 1.1"
| "TRADE_AREA_factor residential = Fin 0.95"
| "TRADE_AREA_factor roadside = Fin 0.9"
| "TRADE_AREA_factor tourism = Fin 1.25"

text \<open>
  \<^verbatim>\<open>function detectAreaFromAddress(address) {
    const a = (address || "").trim();
    if (!a) return null;
    for (const area of AREA_MASTER) {
      if (area.patterns.some((re) => re.test(a))) return area.key;
    }
    return null; }\<close>
  The loop over the table is \<open>scanAreas\<close>.
\<close>

fun scanAreas :: "AreaMaster list \<Rightarrow> jsstring \<Rightarrow> AreaKey option" where
  "scanAreas [] a = None"
| "scanAreas (area # rest) a =
     (if some (\<lambda>re. test re a) (patterns area) then Some (key area) else scanAreas rest a)"

definition detectAreaFromAddress :: "jsstring \<Rightarrow> AreaKey option" where
  "detectAreaFromAddress address =
     (let a = trim (if address = [] then [] else address)
      in if a = [] then None else scanAreas AREA_MASTER a)"

text \<open>
  The resolver as the specification words it (section 4.2): trim the address; if it is
  empty, answer none; otherwise take the first tier, in the order of the table, one of
  whose rules matches, a rule matching when one of its literals occurs somewhere in the
  address. \<open>detectAreaFromAddress\<close> above is compared with it.
\<close>

definition occursIn :: "jsstring \<Rightarrow> jsstring \<Rightarrow> bool" where
  "occursIn l a = (\<exists>ps ss. a = ps @ l @ ss)"

definition ruleMatches :: "RegExp \<Rightarrow> jsstring \<Rightarrow> bool" where
  "ruleMatches re a = (case re of Alternatives alts \<Rightarrow> \<exists>l \<in> set alts. occursIn l a)"

definition tierMatches :: "AreaMaster \<Rightarrow> jsstring \<Rightarrow> bool" where
  "tierMatches t a = (\<exists>re \<in> set (patterns t). ruleMatches re a)"

definition resolve_spec :: "jsstring \<Rightarrow> AreaMaster list \<Rightarrow> AreaKey option" where
  "resolve_spec address orderedTiers =
     (let a = trim address
      in if a = [] then None else map_option key (find (\<lambda>t. tierMatches t a) orderedTiers))"

text \<open>\<^verbatim>\<open>AREA_MASTER.find((x) => x.key === key) || AREA_MASTER[0]\<close>\<close>

definition getArea :: "AreaKey \<Rightarrow> AreaMaster" where
  "getArea k = (case find (\<lambda>x. key x = k) AREA_MASTER of Some a \<Rightarrow> a | None \<Rightarrow> AREA_MASTER ! 0)"

section \<open>The calculator's state\<close>

text \<open>
  The \<^verbatim>\<open>useState\<close> variables of \<^verbatim>\<open>RestaurantPrevisitCalculator\<close>. The values derived
  by \<^verbatim>\<open>useMemo\<close> are functions of this record.
\<close>

record State =
  address :: jsstring
  industry :: IndustryKey
  scenario :: ScenarioKey
  unitType :: UnitType
  unitPrice :: jsnum
  peoplePerGroup :: jsnum
  addGroupsPerDay :: jsnum
  seats :: jsnum
  adSpend :: jsnum
  daysPerMonth :: jsnum
  useBaseline :: bool
  turnover :: jsnum
  occupancy :: jsnum
  autoDetectArea :: bool
  area :: AreaKey
  stationDistance :: StationDistanceKey
  tradeArea :: TradeAreaKey
  seatsPerTsubo :: jsnum
  autoSetRentRate :: bool
  manualRates :: bool
  foodRate :: jsnum
  laborRate :: jsnum
  rentRate :: jsnum

definition presetRates :: "State \<Rightarrow> Rates" where
  "presetRates s = INDUSTRY_PRESETS (industry s) (scenario s)"

section \<open>Seat-based baseline revenue\<close>

record Baseline =
  ppg :: jsnum
  seatsN :: jsnum
  days :: jsnum
  pricePerPerson :: jsnum
  coversPerDay :: jsnum
  baselineRevenueDaily :: jsnum
  baselineRevenueMonthly :: jsnum

definition baseline :: "State \<Rightarrow> Baseline" where
  "baseline s =
     (let ppg = clamp (peoplePerGroup s) (Fin 1) (Fin 20);
          seatsN = clamp (seats s) (Fin 0) (Fin 500);
          days = clamp (daysPerMonth s) (Fin 1) (Fin 31);
          pricePerPerson =
            (if unitType s = per_person then unitPrice s else safeDiv (unitPrice s) ppg);
          coversPerDay = js_mul (js_mul seatsN (occupancy s)) (turnover s);
          baselineRevenueDaily = js_mul coversPerDay pricePerPerson;
          baselineRevenueMonthly = js_mul baselineRevenueDaily days
      in \<lparr>ppg = ppg, seatsN = seatsN, days = days, pricePerPerson = pricePerPerson,
          coversPerDay = coversPerDay, baselineRevenueDaily = baselineRevenueDaily,
          baselineRevenueMonthly = baselineRevenueMonthly\<rparr>)"

section \<open>Rent suggestion from the area master\<close>

record RentSuggestion =
  areaLabel :: jsstring
  rentPerTsubo :: jsnum
  tsubo :: jsnum
  estimatedRentMonthly :: jsnum
  rentRateSuggested :: jsnum
  baselineSales :: jsnum

definition rentSuggestion :: "State \<Rightarrow> RentSuggestion" where
  "rentSuggestion s =
     (let a = getArea (area s);
          seatsN = clamp (seats s) (Fin 0) (Fin 500);
          spt = clamp (seatsPerTsubo s) (Fin 0.8) (Fin 4.0);
          tsubo = safeDiv seatsN spt;
          stationFactor = STATION_DISTANCE_factor (stationDistance s);
          tradeFactor = TRADE_AREA_factor (tradeArea s);
          rentPerTsubo = js_mul (js_mul (baseRentPerTsubo a) stationFactor) tradeFactor;
          estimatedRentMonthly = js_mul tsubo rentPerTsubo;
          baselineSales = baselineRevenueMonthly (baseline s);
          rentRateSuggested =
            (if js_gt baselineSales (Fin 0)
             then clamp (js_div estimatedRentMonthly baselineSales) (Fin 0) (Fin 0.35)
             else Fin 0)
      in \<lparr>areaLabel = label a, rentPerTsubo = rentPerTsubo, tsubo = tsubo,
          estimatedRentMonthly = estimatedRentMonthly,
          rentRateSuggested = rentRateSuggested, baselineSales = baselineSales\<rparr>)"

section \<open>Effects\<close>

text \<open>
  React runs the effects of a render after it, each with the values of that render:
  below, \<open>r\<close> is the rendered state the effect reads, and \<open>s\<close> the state its setters
  update. The setters called by the effects of one render are applied together, in call
  order, before the next render.

  \<^verbatim>\<open>React.useEffect(() => {
    if (!autoDetectArea) return;
    const detected = detectAreaFromAddress(address);
    if (detected) setArea(detected);
  }, [address, autoDetectArea]);\<close>
\<close>

definition effect_detectArea :: "State \<Rightarrow> State \<Rightarrow> State" where
  "effect_detectArea r s =
     (if \<not> autoDetectArea r then s
      else case detectAreaFromAddress (address r) of
             None \<Rightarrow> s
           | Some detected \<Rightarrow> s\<lparr>area := detected\<rparr>)"

text \<open>
  \<^verbatim>\<open>// Sync preset -> local rates when industry/scenario changes (if not manual)
  React.useEffect(() => {
    if (!manualRates) {
      setFoodRate(presetRates.food);
      setLaborRate(presetRates.labor);
      if (autoSetRentRate && rentSuggestion.rentRateSuggested > 0) {
        setRentRate(rentSuggestion.rentRateSuggested);
      } else {
        setRentRate(presetRates.rent);
      }
    }
  }, [industry, scenario]);\<close>
\<close>

definition effect_syncPreset :: "State \<Rightarrow> State \<Rightarrow> State" where
  "effect_syncPreset r s =
     (if \<not> manualRates r
      then (let s1 = s\<lparr>foodRate := food (presetRates r)\<rparr>;
                s2 = s1\<lparr>laborRate := labor (presetRates r)\<rparr>
            in if autoSetRentRate r \<and> js_gt (rentRateSuggested (rentSuggestion r)) (Fin 0)
               then s2\<lparr>rentRate := rentRateSuggested (rentSuggestion r)\<rparr>
               else s2\<lparr>rentRate := rent (presetRates r)\<rparr>)
      else s)"

text \<open>
  \<^verbatim>\<open>// Whenever the rent suggestion changes, optionally auto-apply it
  React.useEffect(() => {
    if (!autoSetRentRate) return;
    if (manualRates) return;
    if (rentSuggestion.rentRateSuggested <= 0) return;
    setRentRate(rentSuggestion.rentRateSuggested);
  }, [autoSetRentRate, manualRates, rentSuggestion.rentRateSuggested]);\<close>
\<close>

definition effect_autoRent :: "State \<Rightarrow> State \<Rightarrow> State" where
  "effect_autoRent r s =
     (if \<not> autoSetRentRate r then s
      else if manualRates r then s
      else if js_le (rentRateSuggested (rentSuggestion r)) (Fin 0) then s
      else s\<lparr>rentRate := rentRateSuggested (rentSuggestion r)\<rparr>)"

text \<open>
  An effect runs after the first render and after every render in which one of its
  dependencies differs from the previous render. \<open>commit prev r\<close> is the state after
  the effects of the render \<open>r\<close>, where \<open>prev\<close> is the previous render, if any.
\<close>

definition deps_detectArea :: "State \<Rightarrow> jsstring \<times> bool" where
  "deps_detectArea r = (address r, autoDetectArea r)"

definition deps_syncPreset :: "State \<Rightarrow> IndustryKey \<times> ScenarioKey" where
  "deps_syncPreset r = (industry r, scenario r)"

definition deps_autoRent :: "State \<Rightarrow> bool \<times> bool \<times> jsnum" where
  "deps_autoRent r = (autoSetRentRate r, manualRates r, rentRateSuggested (rentSuggestion r))"

fun changed :: "(State \<Rightarrow> 'd) \<Rightarrow> State option \<Rightarrow> State \<Rightarrow> bool" where
  "changed deps None r = True"
| "changed deps (Some p) r = (deps p \<noteq> deps r)"

definition commit :: "State option \<Rightarrow> State \<Rightarrow> State" where
  "commit prev r =
     (let s1 = (if changed deps_detectArea prev r then effect_detectArea r r else r);
          s2 = (if changed deps_syncPreset prev r then effect_syncPreset r s1 else s1)
      in if changed deps_autoRent prev r then effect_autoRent r s2 else s2)"

text \<open>
  A state change made by the effects causes another render, whose effects may change
  the state again; rendering stops when the effects leave the state as it is.
  \<open>rerender n prev r\<close> follows at most \<open>n\<close> renders and is \<open>None\<close> if the state has not
  settled by then.
\<close>

fun rerender :: "nat \<Rightarrow> State option \<Rightarrow> State \<Rightarrow> State option" where
  "rerender 0 prev r = None"
| "rerender (Suc n) prev r =
     (let s = commit prev r in if s = r then Some r else rerender n (Some r) s)"

section \<open>Projection\<close>

record Normalized =
  ppg :: jsnum
  seatsN :: jsnum
  addG :: jsnum
  days :: jsnum
  food :: jsnum
  labor :: jsnum
  rent :: jsnum
  addRevenueDaily :: jsnum
  addRevenueMonthly :: jsnum
  addGrossProfit :: jsnum
  addAfterFL :: jsnum
  addAfterFLR :: jsnum
  roas :: jsnum
  gpRoas :: jsnum
  breakevenGroupsPerDay_Gross :: jsnum
  coversPerDay :: jsnum
  baselineRevenueDaily :: jsnum
  baselineRevenueMonthly :: jsnum
  baselineFood :: jsnum
  baselineLabor :: jsnum
  baselineRent :: jsnum
  baselineOperatingProfitApprox :: jsnum
  fl :: jsnum
  flr :: jsnum

definition normalized :: "State \<Rightarrow> Normalized" where
  "normalized s =
     (let ppg = Baseline.ppg (baseline s);
          seatsN = Baseline.seatsN (baseline s);
          addG = clamp (addGroupsPerDay s) (Fin 0) (Fin 200);
          days = Baseline.days (baseline s);
          food = clamp (foodRate s) (Fin 0) (Fin 0.95);
          labor = clamp (laborRate s) (Fin 0) (Fin 0.95);
          rent = clamp (rentRate s) (Fin 0) (Fin 0.95);
          addRevenueDaily =
            (if unitType s = per_person then js_mul (js_mul (unitPrice s) addG) ppg
             else js_mul (unitPrice s) addG);
          addRevenueMonthly = js_mul addRevenueDaily days;
          addGrossProfit = js_mul addRevenueMonthly (js_sub (Fin 1) food);
          addAfterFL = js_mul addRevenueMonthly (js_sub (js_sub (Fin 1) food) labor);
          addAfterFLR =
            js_mul addRevenueMonthly (js_sub (js_sub (js_sub (Fin 1) food) labor) rent);
          roas = safeDiv addRevenueMonthly (adSpend s);
          gpRoas = safeDiv addGrossProfit (adSpend s);
          gpPerGroup =
            (if unitType s = per_person
             then js_mul (js_mul (unitPrice s) ppg) (js_sub (Fin 1) food)
             else js_mul (unitPrice s) (js_sub (Fin 1) food));
          breakevenGroupsPerDay_Gross = safeDiv (adSpend s) (js_mul gpPerGroup days);
          baselineRevenueDaily = Baseline.baselineRevenueDaily (baseline s);
          baselineRevenueMonthly = Baseline.baselineRevenueMonthly (baseline s);
          baselineFood = js_mul baselineRevenueMonthly food;
          baselineLabor = js_mul baselineRevenueMonthly labor;
          baselineRent = js_mul baselineRevenueMonthly rent;
          baselineOperatingProfitApprox =
            js_sub (js_sub (js_sub (js_sub baselineRevenueMonthly baselineFood)
              baselineLabor) baselineRent) (adSpend s);
          fl = js_add food labor;
          flr = js_add (js_add food labor) rent
      in \<lparr>ppg = ppg, seatsN = seatsN, addG = addG, days = days, food = food,
          labor = labor, rent = rent, addRevenueDaily = addRevenueDaily,
          addRevenueMonthly = addRevenueMonthly, addGrossProfit = addGrossProfit,
          addAfterFL = addAfterFL, addAfterFLR = addAfterFLR, roas = roas, gpRoas = gpRoas,
          breakevenGroupsPerDay_Gross = breakevenGroupsPerDay_Gross,
          coversPerDay = Baseline.coversPerDay (baseline s),
          baselineRevenueDaily = baselineRevenueDaily,
          baselineRevenueMonthly = baselineRevenueMonthly, baselineFood = baselineFood,
          baselineLabor = baselineLabor, baselineRent = baselineRent,
          baselineOperatingProfitApprox = baselineOperatingProfitApprox,
          fl = fl, flr = flr\<rparr>)"

section \<open>Initial state\<close>

text \<open>The initial values of the \<^verbatim>\<open>useState\<close> variables.\<close>

definition initialState :: State where
  "initialState =
     \<lparr>address = [], industry = izakaya, scenario = standard, unitType = per_person,
      unitPrice = Fin 6000, peoplePerGroup = Fin 2, addGroupsPerDay = Fin 1,
      seats = Fin 30, adSpend = Fin 100000, daysPerMonth = Fin 26, useBaseline = True,
      turnover = Fin 2.0, occupancy = Fin 0.65, autoDetectArea = True,
      area = regional_city, stationDistance = walk_4_7, tradeArea = station_front,
      seatsPerTsubo = Fin 2.0, autoSetRentRate = True, manualRates = False,
      foodRate = Rates.food (INDUSTRY_PRESETS izakaya standard),
      laborRate = Rates.labor (INDUSTRY_PRESETS izakaya standard),
      rentRate = Rates.rent (INDUSTRY_PRESETS izakaya standard)\<rparr>"

section \<open>Example inputs\<close>

text \<open>
  Addresses used to evaluate the resolver: a Tachikawa address in Tokyo prefecture with
  blanks around it, a Hachioji address in Tokyo prefecture, a Sakai address in Osaka
  prefecture, a blank address and a Latin one.
\<close>

definition addr_tachikawa :: jsstring where
  "addr_tachikawa = [0x0020, 0x3000, 0x6771, 0x4EAC, 0x90FD, 0x7ACB, 0x5DDD, 0x5E02, 0x0020]"

definition addr_hachioji :: jsstring where
  "addr_hachioji = [0x6771, 0x4EAC, 0x90FD, 0x516B, 0x738B, 0x5B50, 0x5E02]"

definition addr_sakai :: jsstring where
  "addr_sakai = [0x5927, 0x962A, 0x5E9C, 0x583A, 0x5E02]"

definition addr_blank :: jsstring where
  "addr_blank = [0x0020, 0x0009, 0x3000]"

definition addr_latin :: jsstring where
  "addr_latin = [0x0041, 0x0042]"

text \<open>
  States used to evaluate the effects. \<open>settled_initial\<close> is the state after the first
  render has settled. From it the user switches the manual rates on (\<open>manual_on\<close>), types
  a food rate of 0.5 and a labor rate of 0.4 (\<open>manual_typed\<close>) and switches the manual
  rates off again (\<open>manual_off\<close>). \<open>no_baseline\<close> is the initial state with the baseline
  display switched off, and \<open>no_baseline_busy\<close> differs from it in the occupancy only.
\<close>

definition settled_initial :: State where
  "settled_initial = initialState\<lparr>rentRate := Fin (55 / 1352)\<rparr>"

definition manual_on :: State where
  "manual_on = settled_initial\<lparr>manualRates := True\<rparr>"

definition manual_typed :: State where
  "manual_typed = manual_on\<lparr>foodRate := Fin 0.5, laborRate := Fin 0.4\<rparr>"

definition manual_off :: State where
  "manual_off = manual_typed\<lparr>manualRates := False\<rparr>"

definition no_baseline :: State where
  "no_baseline = initialState\<lparr>useBaseline := False\<rparr>"

definition no_baseline_busy :: State where
  "no_baseline_busy = no_baseline\<lparr>occupancy := Fin 0.85\<rparr>"

section \<open>Binary64 products\<close>


text \<open>
  \<open>ilog2 x\<close> is the binary exponent of a positive \<open>x\<close>: the \<open>e\<close> with
  \<open>2 ^ e \<le> x < 2 ^ (e + 1)\<close>. \<open>pow2 e\<close> is \<open>2 ^ e\<close> for an integer \<open>e\<close>.
\<close>

definition ilog2 :: "rat \<Rightarrow> int" where
  "ilog2 x = (if 1 \<le> x then bitlen \<lfloor>x\<rfloor> - 1 else - bitlen (\<lceil>1 / x\<rceil> - 1))"

definition pow2 :: "int \<Rightarrow> rat" where
  "pow2 e = (if 0 \<le> e then 2 ^ nat e else 1 / 2 ^ nat (- e))"






section \<open>Facts about the number model\<close>

lemma clamp_Fin: "clamp (Fin x) (Fin lo) (Fin hi) = Fin (min hi (max lo x))"
  by (simp add: clamp_def min_def max_def)

lemma clamp_PInf: "clamp PInf (Fin lo) (Fin hi) = Fin hi"
  by (simp add: clamp_def)

lemma clamp_NInf: "clamp NInf (Fin lo) (Fin hi) = Fin (min hi lo)"
  by (simp add: clamp_def min_def)

lemma clamp_NaN: "clamp NaN lo hi = NaN"
  by (cases lo; cases hi; simp add: clamp_def)

lemma clamp_cases:
  assumes "lo \<le> hi"
  shows "clamp n (Fin lo) (Fin hi) = NaN \<and> n = NaN
       \<or> (\<exists>q. clamp n (Fin lo) (Fin hi) = Fin q \<and> lo \<le> q \<and> q \<le> hi)"
  using assms by (cases n) (auto simp: clamp_Fin clamp_PInf clamp_NInf clamp_NaN)

lemma js_mul_one: "js_mul x (Fin 1) = x"
  by (cases x) simp_all

section \<open>Safe division\<close>

text \<open>
  Claim C7. \<open>safeDiv\<close> is total. If the divisor is zero or either operand is not finite,
  the result is \<open>0\<close>; otherwise it is the quotient \<open>a / b\<close>, which for finite operands and
  a non-zero divisor is the exact quotient. In particular \<open>safeDiv x 0 = 0\<close> for every
  finite \<open>x\<close>, and \<open>safeDiv NaN y = 0\<close> for every \<open>y\<close>.
\<close>

theorem C7_safeDiv_total:
  "(b = Fin 0 \<or> \<not> isFinite a \<or> \<not> isFinite b \<longrightarrow> safeDiv a b = Fin 0)
   \<and> (isFinite a \<and> isFinite b \<and> b \<noteq> Fin 0 \<longrightarrow> safeDiv a b = js_div a b)
   \<and> (y \<noteq> 0 \<longrightarrow> safeDiv (Fin x) (Fin y) = Fin (x / y))
   \<and> safeDiv (Fin x) (Fin 0) = Fin 0
   \<and> safeDiv NaN c = Fin 0"
  by (simp add: safeDiv_def)

theorem C7_safeDiv_total_witness:
  "safeDiv PInf (Fin 2) = Fin 0 \<and> safeDiv (Fin 6) (Fin 3) = Fin 2
   \<and> safeDiv (Fin 6) (Fin 0) = Fin 0 \<and> safeDiv NaN (Fin 3) = Fin 0"
  using C7_safeDiv_total [of "Fin 2" PInf 3 6 "Fin 3"] by simp

lemma safeDiv_Fin_ex: "\<exists>q. safeDiv a b = Fin q"
  by (cases a; cases b) (simp_all add: safeDiv_def)

lemma safeDiv_nonneg:
  assumes "a = NaN \<or> (\<exists>x. a = Fin x \<and> 0 \<le> x)" and "b = NaN \<or> (\<exists>y. b = Fin y \<and> 0 \<le> y)"
  shows "\<exists>q. safeDiv a b = Fin q \<and> 0 \<le> q"
  using assms by (auto simp: safeDiv_def)

section \<open>Rent estimate\<close>

lemma getArea_rent_pos: "\<exists>b. baseRentPerTsubo (getArea k) = Fin b \<and> 0 < b"
  by (cases k) (simp_all add: getArea_def AREA_MASTER_def)

lemma pos_Fin: "isFinite x \<Longrightarrow> js_lt (Fin 0) x \<Longrightarrow> \<exists>f. x = Fin f \<and> 0 < f"
  by (cases x) auto

lemma station_factor_pos: "\<exists>f. STATION_DISTANCE_factor k = Fin f \<and> 0 < f"
  by (rule pos_Fin; cases k; simp)

lemma trade_factor_pos: "\<exists>f. TRADE_AREA_factor k = Fin f \<and> 0 < f"
  by (rule pos_Fin; cases k; simp)

lemma tsubo_nonneg: "\<exists>q. tsubo (rentSuggestion s) = Fin q \<and> 0 \<le> q"
proof -
  have a: "clamp (seats s) (Fin 0) (Fin 500) = NaN
        \<or> (\<exists>x. clamp (seats s) (Fin 0) (Fin 500) = Fin x \<and> 0 \<le> x)"
    using clamp_cases [of 0 500 "seats s"] by auto
  have b: "clamp (seatsPerTsubo s) (Fin 0.8) (Fin 4.0) = NaN
        \<or> (\<exists>y. clamp (seatsPerTsubo s) (Fin 0.8) (Fin 4.0) = Fin y \<and> 0 \<le> y)"
    using clamp_cases [of "0.8" "4.0" "seatsPerTsubo s"] by auto
  show ?thesis
    using safeDiv_nonneg [OF a b] by (simp add: rentSuggestion_def Let_def)
qed

lemma rentPerTsubo_pos: "\<exists>q. rentPerTsubo (rentSuggestion s) = Fin q \<and> 0 < q"
proof -
  obtain b where b: "baseRentPerTsubo (getArea (area s)) = Fin b" "0 < b"
    using getArea_rent_pos by blast
  obtain f where f: "STATION_DISTANCE_factor (stationDistance s) = Fin f" "0 < f"
    using station_factor_pos by blast
  obtain g where g: "TRADE_AREA_factor (tradeArea s) = Fin g" "0 < g"
    using trade_factor_pos by blast
  show ?thesis
    using b f g by (simp add: rentSuggestion_def Let_def)
qed

lemma estimatedRentMonthly_nonneg:
  "\<exists>e. estimatedRentMonthly (rentSuggestion s) = Fin e \<and> 0 \<le> e"
proof -
  obtain t where t: "tsubo (rentSuggestion s) = Fin t" "0 \<le> t"
    using tsubo_nonneg by blast
  obtain q where q: "rentPerTsubo (rentSuggestion s) = Fin q" "0 < q"
    using rentPerTsubo_pos by blast
  have "estimatedRentMonthly (rentSuggestion s)
          = js_mul (tsubo (rentSuggestion s)) (rentPerTsubo (rentSuggestion s))"
    by (simp add: rentSuggestion_def Let_def)
  then show ?thesis using t q by simp
qed

lemma rentRateSuggested_eq:
  "rentRateSuggested (rentSuggestion s) =
     (if js_gt (Baseline.baselineRevenueMonthly (baseline s)) (Fin 0)
      then clamp (js_div (estimatedRentMonthly (rentSuggestion s))
                   (Baseline.baselineRevenueMonthly (baseline s))) (Fin 0) (Fin 0.35)
      else Fin 0)"
  by (simp add: rentSuggestion_def Let_def)

lemma quotient_nonneg:
  assumes "0 \<le> e" and "js_gt b (Fin 0)"
  shows "\<exists>q. js_div (Fin e) b = Fin q \<and> 0 \<le> q"
  using assms by (cases b) (auto simp: js_gt_def)

lemma rentRateSuggested_range:
  "\<exists>q. rentRateSuggested (rentSuggestion s) = Fin q \<and> 0 \<le> q \<and> q \<le> 0.35"
proof (cases "js_gt (Baseline.baselineRevenueMonthly (baseline s)) (Fin 0)")
  case True
  obtain e where e: "estimatedRentMonthly (rentSuggestion s) = Fin e" "0 \<le> e"
    using estimatedRentMonthly_nonneg by blast
  obtain q where q: "js_div (Fin e) (Baseline.baselineRevenueMonthly (baseline s)) = Fin q"
    using quotient_nonneg [OF e(2) True] by blast
  have "rentRateSuggested (rentSuggestion s) = Fin (min 0.35 (max 0 q))"
    using True e q by (simp add: rentRateSuggested_eq clamp_Fin)
  then show ?thesis by (simp add: min_def max_def)
next
  case False
  then show ?thesis by (simp add: rentRateSuggested_eq)
qed

text \<open>
  Claim C3. For every state, the suggested rent ratio is
  \<open>clamp (estimatedRentMonthly / baselineSales) 0 0.35\<close> when the baseline monthly revenue
  is greater than \<open>0\<close>, and \<open>0\<close> when it is \<open>0\<close> (no division happens then). It is always a
  finite number between \<open>0\<close> and \<open>0.35\<close>, and it is exactly \<open>0.35\<close> when the quotient
  exceeds \<open>0.35\<close>.
\<close>

theorem C3_rentRateSuggested:
  "(js_gt (Baseline.baselineRevenueMonthly (baseline s)) (Fin 0) \<longrightarrow>
      rentRateSuggested (rentSuggestion s) =
        clamp (js_div (estimatedRentMonthly (rentSuggestion s))
                 (Baseline.baselineRevenueMonthly (baseline s))) (Fin 0) (Fin 0.35))
   \<and> (Baseline.baselineRevenueMonthly (baseline s) = Fin 0 \<longrightarrow>
        rentRateSuggested (rentSuggestion s) = Fin 0)
   \<and> (\<exists>q. rentRateSuggested (rentSuggestion s) = Fin q \<and> 0 \<le> q \<and> q \<le> 0.35)
   \<and> (js_gt (Baseline.baselineRevenueMonthly (baseline s)) (Fin 0)
        \<and> js_gt (js_div (estimatedRentMonthly (rentSuggestion s))
                   (Baseline.baselineRevenueMonthly (baseline s))) (Fin 0.35) \<longrightarrow>
        rentRateSuggested (rentSuggestion s) = Fin 0.35)"
proof -
  have gt: "js_gt x (Fin 0.35) \<Longrightarrow> clamp x (Fin 0) (Fin 0.35) = Fin 0.35" for x
    by (cases x) (auto simp: js_gt_def clamp_Fin clamp_PInf)
  have zero: "Baseline.baselineRevenueMonthly (baseline s) = Fin 0 \<Longrightarrow>
      rentRateSuggested (rentSuggestion s) = Fin 0"
    by (simp add: rentRateSuggested_eq js_gt_def)
  show ?thesis
    using rentRateSuggested_range [of s] zero gt by (auto simp: rentRateSuggested_eq)
qed

theorem C3_rentRateSuggested_witness:
  "js_gt (Baseline.baselineRevenueMonthly (baseline (initialState\<lparr>unitPrice := Fin 500\<rparr>))) (Fin 0)
   \<and> js_div (estimatedRentMonthly (rentSuggestion (initialState\<lparr>unitPrice := Fin 500\<rparr>)))
        (Baseline.baselineRevenueMonthly (baseline (initialState\<lparr>unitPrice := Fin 500\<rparr>)))
       = Fin (247500 / 507000)
   \<and> rentRateSuggested (rentSuggestion (initialState\<lparr>unitPrice := Fin 500\<rparr>)) = Fin 0.35
   \<and> Baseline.baselineRevenueMonthly (baseline (initialState\<lparr>seats := Fin 0\<rparr>)) = Fin 0
   \<and> rentRateSuggested (rentSuggestion (initialState\<lparr>seats := Fin 0\<rparr>)) = Fin 0"
proof -
  have b: "Baseline.baselineRevenueMonthly (baseline (initialState\<lparr>unitPrice := Fin 500\<rparr>))
             = Fin 507000"
    by (simp add: initialState_def baseline_def Let_def clamp_Fin)
  have e: "estimatedRentMonthly (rentSuggestion (initialState\<lparr>unitPrice := Fin 500\<rparr>))
             = Fin 247500"
    by (simp add: initialState_def rentSuggestion_def Let_def clamp_Fin getArea_def
          AREA_MASTER_def safeDiv_def)
  have z: "Baseline.baselineRevenueMonthly (baseline (initialState\<lparr>seats := Fin 0\<rparr>)) = Fin 0"
    by (simp add: initialState_def baseline_def Let_def clamp_Fin)
  show ?thesis
    using C3_rentRateSuggested [of "initialState\<lparr>unitPrice := Fin 500\<rparr>"]
      C3_rentRateSuggested [of "initialState\<lparr>seats := Fin 0\<rparr>"]
    by (simp add: b e z js_gt_def clamp_Fin)
qed

section \<open>Properties of the projection\<close>

lemma normalized_ppg: "Normalized.ppg (normalized s) = clamp (peoplePerGroup s) (Fin 1) (Fin 20)"
  by (simp add: normalized_def baseline_def Let_def)

lemma normalized_days: "Normalized.days (normalized s) = clamp (daysPerMonth s) (Fin 1) (Fin 31)"
  by (simp add: normalized_def baseline_def Let_def)

lemma normalized_addG: "addG (normalized s) = clamp (addGroupsPerDay s) (Fin 0) (Fin 200)"
  by (simp add: normalized_def Let_def)

lemma addRevenueDaily_eq:
  "addRevenueDaily (normalized s) =
     (if unitType s = per_person
      then js_mul (js_mul (unitPrice s) (addG (normalized s))) (Normalized.ppg (normalized s))
      else js_mul (unitPrice s) (addG (normalized s)))"
  by (simp add: normalized_def Let_def)

lemma addRevenueMonthly_eq:
  "addRevenueMonthly (normalized s) =
     js_mul (addRevenueDaily (normalized s)) (Normalized.days (normalized s))"
  by (simp add: normalized_def Let_def)

text \<open>
  Claim C1. The daily incremental revenue is \<open>unitPrice * addG * ppg\<close> for per-person
  pricing and \<open>unitPrice * addG\<close> (times \<open>1\<close>) for per-group pricing, where \<open>addG\<close> and
  \<open>ppg\<close> are the added groups per day and the people per group after clamping to
  \<open>[0, 200]\<close> and \<open>[1, 20]\<close>; for inputs inside these ranges they are the inputs
  themselves. With per-person pricing, unit price 6000, 2 people per group, 1 added
  group per day, 26 days, rates 0.30, 0.30, 0.10 and ad spend 100000, the monthly
  incremental revenue is 312000, the incremental gross profit 218400, the ROAS 3.12 and
  the gross-profit ROAS 2.184, whatever the other inputs are.
\<close>

theorem C1_incremental_revenue:
  "addRevenueDaily (normalized s) =
     js_mul (js_mul (unitPrice s) (addG (normalized s)))
       (if unitType s = per_person then Normalized.ppg (normalized s) else Fin 1)
   \<and> addG (normalized s) = clamp (addGroupsPerDay s) (Fin 0) (Fin 200)
   \<and> Normalized.ppg (normalized s) = clamp (peoplePerGroup s) (Fin 1) (Fin 20)
   \<and> (addGroupsPerDay s = Fin a \<and> 0 \<le> a \<and> a \<le> 200
        \<and> peoplePerGroup s = Fin g \<and> 1 \<le> g \<and> g \<le> 20 \<longrightarrow>
        addRevenueDaily (normalized s) =
          js_mul (js_mul (unitPrice s) (Fin a)) (if unitType s = per_person then Fin g else Fin 1))
   \<and> (let n = normalized (s\<lparr>unitType := per_person, unitPrice := Fin 6000,
                   peoplePerGroup := Fin 2, addGroupsPerDay := Fin 1, daysPerMonth := Fin 26,
                   foodRate := Fin 0.30, laborRate := Fin 0.30, rentRate := Fin 0.10,
                   adSpend := Fin 100000\<rparr>)
        in addRevenueDaily n = Fin 12000 \<and> addRevenueMonthly n = Fin 312000
           \<and> addGrossProfit n = Fin 218400 \<and> roas n = Fin 3.12 \<and> gpRoas n = Fin 2.184)"
proof -
  have daily: "addRevenueDaily (normalized s) =
     js_mul (js_mul (unitPrice s) (addG (normalized s)))
       (if unitType s = per_person then Normalized.ppg (normalized s) else Fin 1)"
    by (simp add: addRevenueDaily_eq js_mul_one)
  have inrange: "addGroupsPerDay s = Fin a \<and> 0 \<le> a \<and> a \<le> 200
        \<and> peoplePerGroup s = Fin g \<and> 1 \<le> g \<and> g \<le> 20 \<longrightarrow>
        addRevenueDaily (normalized s) =
          js_mul (js_mul (unitPrice s) (Fin a)) (if unitType s = per_person then Fin g else Fin 1)"
    by (simp add: daily normalized_addG normalized_ppg clamp_Fin min_def max_def)
  have concrete: "(let n = normalized (s\<lparr>unitType := per_person, unitPrice := Fin 6000,
                   peoplePerGroup := Fin 2, addGroupsPerDay := Fin 1, daysPerMonth := Fin 26,
                   foodRate := Fin 0.30, laborRate := Fin 0.30, rentRate := Fin 0.10,
                   adSpend := Fin 100000\<rparr>)
        in addRevenueDaily n = Fin 12000 \<and> addRevenueMonthly n = Fin 312000
           \<and> addGrossProfit n = Fin 218400 \<and> roas n = Fin 3.12 \<and> gpRoas n = Fin 2.184)"
    by (simp add: normalized_def baseline_def Let_def clamp_Fin safeDiv_def js_sub_def)
  show ?thesis
    using daily inrange concrete normalized_addG [of s] normalized_ppg [of s] by blast
qed

theorem C1_incremental_revenue_witness:
  "addGroupsPerDay (initialState\<lparr>addGroupsPerDay := Fin 3\<rparr>) = Fin 3 \<and> (0::rat) \<le> 3 \<and> (3::rat) \<le> 200
   \<and> peoplePerGroup (initialState\<lparr>addGroupsPerDay := Fin 3\<rparr>) = Fin 2 \<and> (1::rat) \<le> 2 \<and> (2::rat) \<le> 20
   \<and> addRevenueDaily (normalized (initialState\<lparr>addGroupsPerDay := Fin 3\<rparr>)) = Fin 36000"
proof -
  have h: "addGroupsPerDay (initialState\<lparr>addGroupsPerDay := Fin 3\<rparr>) = Fin 3 \<and> (0::rat) \<le> 3
      \<and> (3::rat) \<le> 200
      \<and> peoplePerGroup (initialState\<lparr>addGroupsPerDay := Fin 3\<rparr>) = Fin 2 \<and> (1::rat) \<le> 2
      \<and> (2::rat) \<le> 20"
    by (simp add: initialState_def)
  have "addRevenueDaily (normalized (initialState\<lparr>addGroupsPerDay := Fin 3\<rparr>)) =
          js_mul (js_mul (unitPrice (initialState\<lparr>addGroupsPerDay := Fin 3\<rparr>)) (Fin 3))
            (if unitType (initialState\<lparr>addGroupsPerDay := Fin 3\<rparr>) = per_person
             then Fin 2 else Fin 1)"
    using C1_incremental_revenue [of "initialState\<lparr>addGroupsPerDay := Fin 3\<rparr>" 3 2] h
    by blast
  also have "\<dots> = Fin 36000"
    by (simp add: initialState_def)
  finally show ?thesis using h by blast
qed

section \<open>Properties of the baseline estimate\<close>

lemma baseline_ppg_cases:
  "Baseline.ppg (baseline s) = NaN
   \<or> (\<exists>g. Baseline.ppg (baseline s) = Fin g \<and> 1 \<le> g \<and> g \<le> 20)"
  using clamp_cases [of 1 20 "peoplePerGroup s"] by (auto simp: baseline_def Let_def)

text \<open>
  Claim C6. For every state, the baseline estimate clamps the people per group to
  \<open>[1, 20]\<close>, the seats to \<open>[0, 500]\<close> and the days per month to \<open>[1, 31]\<close>. The price
  per person is the unit price for per-person pricing and \<open>safeDiv unitPrice ppg\<close> for
  per-group pricing, which is always finite and is the exact quotient when the unit
  price is finite (the clamped group size is never zero). The covers per day are
  \<open>seatsN * occupancy * turnover\<close>, the daily revenue is the covers times the price per
  person, and the monthly revenue is the daily revenue times the days. The function has
  no failing branch.
\<close>

theorem C6_baseline:
  "Baseline.ppg (baseline s) = clamp (peoplePerGroup s) (Fin 1) (Fin 20)
   \<and> Baseline.seatsN (baseline s) = clamp (seats s) (Fin 0) (Fin 500)
   \<and> Baseline.days (baseline s) = clamp (daysPerMonth s) (Fin 1) (Fin 31)
   \<and> (unitType s = per_person \<longrightarrow> pricePerPerson (baseline s) = unitPrice s)
   \<and> (unitType s = per_group \<longrightarrow>
        pricePerPerson (baseline s) = safeDiv (unitPrice s) (Baseline.ppg (baseline s))
        \<and> isFinite (pricePerPerson (baseline s)))
   \<and> (unitType s = per_group \<and> unitPrice s = Fin p \<and> Baseline.ppg (baseline s) = Fin g \<longrightarrow>
        g \<noteq> 0 \<and> pricePerPerson (baseline s) = Fin (p / g))
   \<and> Baseline.coversPerDay (baseline s) =
        js_mul (js_mul (Baseline.seatsN (baseline s)) (occupancy s)) (turnover s)
   \<and> Baseline.baselineRevenueDaily (baseline s) =
        js_mul (Baseline.coversPerDay (baseline s)) (pricePerPerson (baseline s))
   \<and> Baseline.baselineRevenueMonthly (baseline s) =
        js_mul (Baseline.baselineRevenueDaily (baseline s)) (Baseline.days (baseline s))"
proof -
  have fields: "Baseline.ppg (baseline s) = clamp (peoplePerGroup s) (Fin 1) (Fin 20)"
    "Baseline.seatsN (baseline s) = clamp (seats s) (Fin 0) (Fin 500)"
    "Baseline.days (baseline s) = clamp (daysPerMonth s) (Fin 1) (Fin 31)"
    "Baseline.coversPerDay (baseline s) =
        js_mul (js_mul (Baseline.seatsN (baseline s)) (occupancy s)) (turnover s)"
    "Baseline.baselineRevenueDaily (baseline s) =
        js_mul (Baseline.coversPerDay (baseline s)) (pricePerPerson (baseline s))"
    "Baseline.baselineRevenueMonthly (baseline s) =
        js_mul (Baseline.baselineRevenueDaily (baseline s)) (Baseline.days (baseline s))"
    by (simp_all add: baseline_def Let_def)
  have price: "pricePerPerson (baseline s) =
      (if unitType s = per_person then unitPrice s
       else safeDiv (unitPrice s) (Baseline.ppg (baseline s)))"
    by (simp add: baseline_def Let_def)
  have fin: "isFinite (safeDiv (unitPrice s) (Baseline.ppg (baseline s)))"
    using safeDiv_Fin_ex [of "unitPrice s" "Baseline.ppg (baseline s)"] by auto
  have quot: "unitType s = per_group \<and> unitPrice s = Fin p \<and> Baseline.ppg (baseline s) = Fin g
      \<longrightarrow> g \<noteq> 0 \<and> pricePerPerson (baseline s) = Fin (p / g)"
    using baseline_ppg_cases [of s] by (auto simp: price safeDiv_def)
  show ?thesis
    using fields price fin quot by simp
qed

theorem C6_baseline_witness:
  "unitType (initialState\<lparr>unitType := per_group, peoplePerGroup := Fin 40\<rparr>) = per_group
   \<and> Baseline.ppg (baseline (initialState\<lparr>unitType := per_group, peoplePerGroup := Fin 40\<rparr>))
       = Fin 20
   \<and> pricePerPerson (baseline (initialState\<lparr>unitType := per_group, peoplePerGroup := Fin 40\<rparr>))
       = Fin 300
   \<and> Baseline.baselineRevenueMonthly
        (baseline (initialState\<lparr>unitType := per_group, peoplePerGroup := Fin 40\<rparr>)) = Fin 304200"
proof -
  have u: "unitType (initialState\<lparr>unitType := per_group, peoplePerGroup := Fin 40\<rparr>) = per_group"
    "unitPrice (initialState\<lparr>unitType := per_group, peoplePerGroup := Fin 40\<rparr>) = Fin 6000"
    "peoplePerGroup (initialState\<lparr>unitType := per_group, peoplePerGroup := Fin 40\<rparr>) = Fin 40"
    "seats (initialState\<lparr>unitType := per_group, peoplePerGroup := Fin 40\<rparr>) = Fin 30"
    "daysPerMonth (initialState\<lparr>unitType := per_group, peoplePerGroup := Fin 40\<rparr>) = Fin 26"
    "occupancy (initialState\<lparr>unitType := per_group, peoplePerGroup := Fin 40\<rparr>) = Fin 0.65"
    "turnover (initialState\<lparr>unitType := per_group, peoplePerGroup := Fin 40\<rparr>) = Fin 2"
    by (simp_all add: initialState_def)
  show ?thesis
    using C6_baseline [of "initialState\<lparr>unitType := per_group, peoplePerGroup := Fin 40\<rparr>" 6000 20]
    unfolding u by (simp add: clamp_Fin safeDiv_def)
qed

section \<open>Per-group and per-person pricing\<close>

text \<open>
  The rounding model: \<open>ilog2\<close> is the binary exponent, and a whole number below \<open>2 ^ 53\<close>
  in absolute value is a double, so rounding leaves it as it is.
\<close>

lemma pow2_nonneg_nat: "0 \<le> e \<Longrightarrow> pow2 e = 2 ^ nat e"
  by (simp add: pow2_def)

lemma pow2_nonpos_nat: "e \<le> 0 \<Longrightarrow> pow2 e = 1 / 2 ^ nat (- e)"
  by (cases "e = 0") (simp_all add: pow2_def)

lemma ilog2_bounds:
  assumes "0 < x"
  shows "pow2 (ilog2 x) \<le> x \<and> x < pow2 (ilog2 x + 1)"
proof (cases "1 \<le> x")
  case True
  define n where "n = \<lfloor>x\<rfloor>"
  have n: "0 < n" using True by (simp add: n_def)
  define b where "b = bitlen n"
  have bb: "2 ^ nat (b - 1) \<le> n" "n < 2 ^ nat b"
    using bitlen_bounds [OF n] by (simp_all add: b_def)
  have b1: "1 \<le> b"
    using n by (simp add: b_def bitlen_ge_iff_power)
  have il: "ilog2 x = b - 1"
    using True by (simp add: ilog2_def n_def b_def)
  have "(of_int (2 ^ nat (b - 1)) :: rat) \<le> of_int n"
    using bb(1) by (simp only: of_int_le_iff)
  then have lo: "(2::rat) ^ nat (b - 1) \<le> of_int n" by simp
  have "n + 1 \<le> 2 ^ nat b" using bb(2) by simp
  then have "(of_int (n + 1) :: rat) \<le> of_int (2 ^ nat b)"
    by (simp only: of_int_le_iff)
  then have hi: "(of_int n :: rat) + 1 \<le> 2 ^ nat b" by simp
  have fl: "of_int n \<le> x" "x < of_int n + 1"
    using floor_correct [of x] by (simp_all add: n_def)
  have l: "(2::rat) ^ nat (b - 1) \<le> x"
    using lo fl(1) by (rule order_trans)
  have u: "x < (2::rat) ^ nat b"
    using fl(2) hi by (rule less_le_trans)
  show ?thesis
    using l u b1 by (simp add: il pow2_nonneg_nat)
next
  case False
  define y where "y = 1 / x"
  have y: "1 < y" "0 < y" "x = 1 / y"
    using False assms by (simp_all add: y_def)
  define n where "n = \<lceil>y\<rceil> - 1"
  have n: "0 < n" using y(1) by (simp add: n_def less_ceiling_iff)
  have cl: "of_int n < y" "y \<le> of_int n + 1"
    using ceiling_correct [of y] by (simp_all add: n_def)
  define b where "b = bitlen n"
  have bb: "2 ^ nat (b - 1) \<le> n" "n < 2 ^ nat b"
    using bitlen_bounds [OF n] by (simp_all add: b_def)
  have b1: "1 \<le> b"
    using n by (simp add: b_def bitlen_ge_iff_power)
  have il: "ilog2 x = - b"
    using False by (simp add: ilog2_def n_def b_def y_def)
  have "(of_int (2 ^ nat (b - 1)) :: rat) \<le> of_int n"
    using bb(1) by (simp only: of_int_le_iff)
  then have "(2::rat) ^ nat (b - 1) \<le> of_int n" by simp
  then have lo: "(2::rat) ^ nat (b - 1) < y" using cl(1) by (rule le_less_trans)
  have "n + 1 \<le> 2 ^ nat b" using bb(2) by simp
  then have "(of_int (n + 1) :: rat) \<le> of_int (2 ^ nat b)"
    by (simp only: of_int_le_iff)
  then have "(of_int n :: rat) + 1 \<le> 2 ^ nat b" by simp
  with cl(2) have hi: "y \<le> 2 ^ nat b" by (rule order_trans)
  have p1: "pow2 (- b) = 1 / 2 ^ nat b"
    using b1 by (simp add: pow2_nonpos_nat)
  have p2: "pow2 (- b + 1) = 1 / 2 ^ nat (b - 1)"
    using b1 pow2_nonpos_nat [of "- b + 1"] by simp
  have xs: "1 / y = x" by (simp add: y_def)
  have "1 / 2 ^ nat b \<le> 1 / y"
    using hi y(2) by (simp add: frac_le)
  then have l: "1 / 2 ^ nat b \<le> x" by (simp only: xs)
  have "1 / y < 1 / 2 ^ nat (b - 1)"
    using lo by (simp add: frac_less2)
  then have u: "x < 1 / 2 ^ nat (b - 1)" by (simp only: xs)
  have q1: "pow2 (ilog2 x) = 1 / 2 ^ nat b"
    using p1 by (simp add: il)
  have q2: "pow2 (ilog2 x + 1) = 1 / 2 ^ nat (b - 1)"
    using p2 by (simp add: il)
  show ?thesis
    using l u by (simp only: q1 q2 simp_thms)
qed















section \<open>Area resolver\<close>

lemma some_iff: "some p xs \<longleftrightarrow> (\<exists>x \<in> set xs. p x)"
  by (induction xs) auto

lemma literal_at_iff: "literal_at l s \<longleftrightarrow> (\<exists>ss. s = l @ ss)"
  by (induction l s rule: literal_at.induct) auto

lemma occursIn_Nil: "occursIn l [] \<longleftrightarrow> l = []"
  by (auto simp: occursIn_def)

lemma occursIn_Cons: "occursIn l (c # cs) \<longleftrightarrow> literal_at l (c # cs) \<or> occursIn l cs"
proof
  assume "occursIn l (c # cs)"
  then obtain ps ss where e: "c # cs = ps @ l @ ss"
    by (auto simp: occursIn_def)
  show "literal_at l (c # cs) \<or> occursIn l cs"
  proof (cases ps)
    case Nil
    with e show ?thesis by (auto simp: literal_at_iff)
  next
    case (Cons p ps')
    with e have "cs = ps' @ l @ ss" by simp
    then show ?thesis by (auto simp: occursIn_def)
  qed
next
  assume "literal_at l (c # cs) \<or> occursIn l cs"
  then show "occursIn l (c # cs)"
  proof
    assume "literal_at l (c # cs)"
    then obtain ss where "c # cs = [] @ l @ ss" by (auto simp: literal_at_iff)
    then show ?thesis unfolding occursIn_def by blast
  next
    assume "occursIn l cs"
    then obtain ps ss where "cs = ps @ l @ ss" by (auto simp: occursIn_def)
    then have "c # cs = (c # ps) @ l @ ss" by simp
    then show ?thesis unfolding occursIn_def by blast
  qed
qed

lemma search_iff: "search alts s \<longleftrightarrow> (\<exists>l \<in> set alts. occursIn l s)"
proof (induction s)
  case Nil
  have "literal_at l [] \<longleftrightarrow> l = []" for l :: jsstring
    by (cases l) simp_all
  then show ?case by (simp add: some_iff occursIn_Nil)
next
  case (Cons c cs)
  then show ?case by (auto simp: some_iff occursIn_Cons)
qed

lemma test_iff: "test re a \<longleftrightarrow> ruleMatches re a"
  by (cases re) (simp add: ruleMatches_def search_iff)

lemma tier_some_iff: "some (\<lambda>re. test re a) (patterns t) \<longleftrightarrow> tierMatches t a"
  by (simp add: some_iff test_iff tierMatches_def)

lemma scanAreas_find:
  "scanAreas tiers a = map_option key (find (\<lambda>t. tierMatches t a) tiers)"
  by (induction tiers) (simp_all add: tier_some_iff)

lemma occursIn_search: "occursIn l s \<longleftrightarrow> search [l] s"
  by (simp add: search_iff)

lemma trim_tachikawa: "trim addr_tachikawa = [0x6771, 0x4EAC, 0x90FD, 0x7ACB, 0x5DDD, 0x5E02]"
  by (simp add: trim_def addr_tachikawa_def isWhiteSpace_def)

lemma detect_tachikawa: "detectAreaFromAddress addr_tachikawa = Some tokyo_core"
  by (simp add: detectAreaFromAddress_def trim_tachikawa AREA_MASTER_def tokyo_core_re1_def)

lemma trim_sakai: "trim addr_sakai = addr_sakai"
  by (simp add: trim_def addr_sakai_def isWhiteSpace_def)

lemma detect_sakai: "detectAreaFromAddress addr_sakai = Some osaka_core"
  by (simp add: detectAreaFromAddress_def trim_sakai)
     (simp add: addr_sakai_def AREA_MASTER_def tokyo_core_re1_def tokyo_core_re2_def
        tokyo_suburb_re1_def tokyo_suburb_re2_def osaka_core_re1_def)

lemma detect_blank: "detectAreaFromAddress addr_blank = None"
  by (simp add: detectAreaFromAddress_def trim_def addr_blank_def isWhiteSpace_def)

text \<open>
  Claim C2. For every address, the area resolver over the declared table answers as the
  specified resolver does: it trims the address and answers none if nothing is left;
  otherwise it answers the key of the first tier, in declaration order, one of whose
  patterns has a literal occurring in the trimmed address, and none if there is no such
  tier. It is a total function with no failing branch.
\<close>

theorem C2_detectArea_refines_resolve:
  "detectAreaFromAddress addr = resolve_spec addr AREA_MASTER"
  by (simp add: detectAreaFromAddress_def resolve_spec_def scanAreas_find Let_def)

theorem C2_detectArea_refines_resolve_witness:
  "resolve_spec addr_tachikawa AREA_MASTER = Some tokyo_core
   \<and> resolve_spec addr_sakai AREA_MASTER = Some osaka_core
   \<and> resolve_spec addr_blank AREA_MASTER = None"
  using C2_detectArea_refines_resolve [of addr_tachikawa]
    C2_detectArea_refines_resolve [of addr_sakai]
    C2_detectArea_refines_resolve [of addr_blank]
  by (simp add: detect_tachikawa detect_sakai detect_blank)

lemma trim_hachioji: "trim addr_hachioji = addr_hachioji"
  by (simp add: trim_def addr_hachioji_def isWhiteSpace_def)

text \<open>
  Claim C10. The first tier of the table is \<open>tokyo_core\<close> and the prefecture pattern is
  one of its own rules. So for every address whose trimmed text contains the Tokyo
  prefecture string, the resolver answers \<open>tokyo_core\<close>, and never \<open>tokyo_suburb\<close>, also
  when a suburb keyword occurs in the address.
\<close>

theorem C10_tokyo_prefecture_resolves_core:
  assumes "occursIn [0x6771, 0x4EAC, 0x90FD] (trim addr)"
  shows "key (hd AREA_MASTER) = tokyo_core
     \<and> Alternatives [[0x6771, 0x4EAC, 0x90FD]] \<in> set (patterns (hd AREA_MASTER))
     \<and> detectAreaFromAddress addr = Some tokyo_core
     \<and> detectAreaFromAddress addr \<noteq> Some tokyo_suburb"
proof -
  from assms have ne: "trim addr \<noteq> []"
    by (auto simp: occursIn_def)
  from assms have "test tokyo_core_re1 (trim addr)"
    by (simp add: test_iff ruleMatches_def tokyo_core_re1_def)
  then have "scanAreas AREA_MASTER (trim addr) = Some tokyo_core"
    by (simp add: AREA_MASTER_def)
  with ne have "detectAreaFromAddress addr = Some tokyo_core"
    by (simp add: detectAreaFromAddress_def Let_def)
  moreover have "key (hd AREA_MASTER) = tokyo_core"
    "Alternatives [[0x6771, 0x4EAC, 0x90FD]] \<in> set (patterns (hd AREA_MASTER))"
    by (simp_all add: AREA_MASTER_def tokyo_core_re1_def)
  ultimately show ?thesis by simp
qed

theorem C10_tokyo_prefecture_resolves_core_witness:
  "occursIn [0x6771, 0x4EAC, 0x90FD] (trim addr_hachioji)
   \<and> test tokyo_suburb_re2 (trim addr_hachioji)
   \<and> detectAreaFromAddress addr_hachioji = Some tokyo_core"
proof -
  have h: "occursIn [0x6771, 0x4EAC, 0x90FD] (trim addr_hachioji)"
    by (simp add: occursIn_search trim_hachioji) (simp add: addr_hachioji_def)
  have k: "test tokyo_suburb_re2 (trim addr_hachioji)"
    by (simp add: trim_hachioji) (simp add: addr_hachioji_def tokyo_suburb_re2_def)
  show ?thesis
    using C10_tokyo_prefecture_resolves_core [OF h] h k by simp
qed

section \<open>Effects and re-rendering\<close>

text \<open>
  The effects write the area and the three stored rates only, and the rent suggestion
  does not read the stored rates. So after an event the second round of effects can
  change the rent rate at most, and the third changes nothing: rendering settles within
  three renders.
\<close>

lemma rentSuggestion_rates:
  "rentSuggestion (s\<lparr>foodRate := f\<rparr>) = rentSuggestion s"
  "rentSuggestion (s\<lparr>laborRate := l\<rparr>) = rentSuggestion s"
  "rentSuggestion (s\<lparr>rentRate := x\<rparr>) = rentSuggestion s"
  by (simp_all add: rentSuggestion_def baseline_def Let_def)

lemma effect_detectArea_frame:
  "\<exists>a. effect_detectArea r s = s\<lparr>area := a\<rparr>"
proof (cases "autoDetectArea r")
  case False
  then have "effect_detectArea r s = s\<lparr>area := area s\<rparr>"
    by (simp add: effect_detectArea_def)
  then show ?thesis by blast
next
  case True
  show ?thesis
  proof (cases "detectAreaFromAddress (address r)")
    case None
    with True have "effect_detectArea r s = s\<lparr>area := area s\<rparr>"
      by (simp add: effect_detectArea_def)
    then show ?thesis by blast
  next
    case (Some detected)
    with True have "effect_detectArea r s = s\<lparr>area := detected\<rparr>"
      by (simp add: effect_detectArea_def)
    then show ?thesis by blast
  qed
qed

lemma effect_syncPreset_frame:
  "\<exists>f l x. effect_syncPreset r s = s\<lparr>foodRate := f, laborRate := l, rentRate := x\<rparr>"
proof (cases "manualRates r")
  case True
  then have "effect_syncPreset r s = s\<lparr>foodRate := foodRate s, laborRate := laborRate s,
      rentRate := rentRate s\<rparr>"
    by (simp add: effect_syncPreset_def)
  then show ?thesis by blast
next
  case False
  then show ?thesis
    by (auto simp: effect_syncPreset_def Let_def)
qed

lemma effect_autoRent_frame:
  "\<exists>x. effect_autoRent r s = s\<lparr>rentRate := x\<rparr>"
proof (cases "autoSetRentRate r \<and> \<not> manualRates r
    \<and> \<not> js_le (rentRateSuggested (rentSuggestion r)) (Fin 0)")
  case True
  then have "effect_autoRent r s = s\<lparr>rentRate := rentRateSuggested (rentSuggestion r)\<rparr>"
    by (simp add: effect_autoRent_def)
  then show ?thesis by blast
next
  case False
  then have "effect_autoRent r s = s"
    by (auto simp: effect_autoRent_def)
  then have "effect_autoRent r s = s\<lparr>rentRate := rentRate s\<rparr>" by simp
  then show ?thesis by blast
qed

lemma commit_frame:
  "\<exists>a f l x. commit prev r = r\<lparr>area := a, foodRate := f, laborRate := l, rentRate := x\<rparr>"
proof -
  define s1 where "s1 = (if changed deps_detectArea prev r then effect_detectArea r r else r)"
  define s2 where "s2 = (if changed deps_syncPreset prev r then effect_syncPreset r s1 else s1)"
  have c: "commit prev r = (if changed deps_autoRent prev r then effect_autoRent r s2 else s2)"
    by (simp add: commit_def s1_def s2_def Let_def)
  obtain a where a: "s1 = r\<lparr>area := a\<rparr>"
  proof (cases "changed deps_detectArea prev r")
    case True
    then show ?thesis using effect_detectArea_frame [of r r] that by (auto simp: s1_def)
  next
    case False
    then have "s1 = r\<lparr>area := area r\<rparr>" by (simp add: s1_def)
    then show ?thesis using that by blast
  qed
  obtain f l x where f: "s2 = s1\<lparr>foodRate := f, laborRate := l, rentRate := x\<rparr>"
  proof (cases "changed deps_syncPreset prev r")
    case True
    then show ?thesis using effect_syncPreset_frame [of r s1] that by (auto simp: s2_def)
  next
    case False
    then have "s2 = s1\<lparr>foodRate := foodRate s1, laborRate := laborRate s1,
        rentRate := rentRate s1\<rparr>" by (simp add: s2_def)
    then show ?thesis using that by blast
  qed
  obtain y where y: "commit prev r = s2\<lparr>rentRate := y\<rparr>"
  proof (cases "changed deps_autoRent prev r")
    case True
    then show ?thesis using effect_autoRent_frame [of r s2] that by (auto simp: c)
  next
    case False
    then have "commit prev r = s2\<lparr>rentRate := rentRate s2\<rparr>" by (simp add: c)
    then show ?thesis using that by blast
  qed
  have "commit prev r = r\<lparr>area := a, foodRate := f, laborRate := l, rentRate := y\<rparr>"
    by (simp add: y f a)
  then show ?thesis by blast
qed

lemma commit_second:
  "\<exists>y. commit (Some r) (r\<lparr>area := a, foodRate := f, laborRate := l, rentRate := x\<rparr>)
        = r\<lparr>area := a, foodRate := f, laborRate := l, rentRate := y\<rparr>"
proof -
  define r' where "r' = r\<lparr>area := a, foodRate := f, laborRate := l, rentRate := x\<rparr>"
  have d: "\<not> changed deps_detectArea (Some r) r'" "\<not> changed deps_syncPreset (Some r) r'"
    by (simp_all add: r'_def deps_detectArea_def deps_syncPreset_def)
  then have c: "commit (Some r) r' =
      (if changed deps_autoRent (Some r) r' then effect_autoRent r' r' else r')"
    by (simp add: commit_def Let_def)
  have "\<exists>y. commit (Some r) r' = r'\<lparr>rentRate := y\<rparr>"
  proof (cases "changed deps_autoRent (Some r) r'")
    case True
    then show ?thesis using effect_autoRent_frame [of r' r'] by (simp add: c)
  next
    case False
    then have "commit (Some r) r' = r'\<lparr>rentRate := rentRate r'\<rparr>" by (simp add: c)
    then show ?thesis by blast
  qed
  then show ?thesis by (simp add: r'_def)
qed

lemma commit_third: "commit (Some r) (r\<lparr>rentRate := y\<rparr>) = r\<lparr>rentRate := y\<rparr>"
  by (simp add: commit_def Let_def deps_detectArea_def deps_syncPreset_def deps_autoRent_def
        rentSuggestion_rates)

lemma rerender_settles: "\<exists>s. rerender (Suc (Suc (Suc 0))) prev r = Some s"
proof -
  obtain a f l x where 1: "commit prev r = r\<lparr>area := a, foodRate := f, laborRate := l, rentRate := x\<rparr>"
    using commit_frame by blast
  define r1 where "r1 = commit prev r"
  obtain y where 2: "commit (Some r) r1 = r1\<lparr>rentRate := y\<rparr>"
    using commit_second [where r = r and a = a and f = f and l = l and x = x]
    by (auto simp: r1_def 1)
  define r2 where "r2 = commit (Some r) r1"
  have 3: "commit (Some r1) r2 = r2"
    by (simp add: r2_def 2 commit_third)
  show ?thesis
    by (simp add: Let_def r1_def [symmetric] r2_def [symmetric] 3)
qed

lemmas eval_defs = commit_def effect_detectArea_def effect_syncPreset_def effect_autoRent_def
  deps_detectArea_def deps_syncPreset_def deps_autoRent_def rentSuggestion_def baseline_def
  presetRates_def Let_def clamp_Fin safeDiv_def js_gt_def getArea_def AREA_MASTER_def
  detectAreaFromAddress_def trim_def

lemmas example_defs = initialState_def settled_initial_def manual_on_def manual_typed_def
  manual_off_def no_baseline_def no_baseline_busy_def

lemma commit_manual_rates:
  assumes "manualRates r"
  shows "foodRate (commit prev r) = foodRate r" "laborRate (commit prev r) = laborRate r"
    "rentRate (commit prev r) = rentRate r" "manualRates (commit prev r)"
proof -
  have e: "effect_syncPreset r s = s" "effect_autoRent r s = s" for s
    using assms by (simp_all add: effect_syncPreset_def effect_autoRent_def)
  obtain a where a: "effect_detectArea r r = r\<lparr>area := a\<rparr>"
    using effect_detectArea_frame by blast
  have "commit prev r = r \<or> commit prev r = r\<lparr>area := a\<rparr>"
    by (simp add: commit_def Let_def e a)
  then show "foodRate (commit prev r) = foodRate r" "laborRate (commit prev r) = laborRate r"
    "rentRate (commit prev r) = rentRate r" "manualRates (commit prev r)"
    using assms by auto
qed

lemma rerender_manual_rates:
  "manualRates r \<Longrightarrow> rerender n prev r = Some s \<Longrightarrow>
     foodRate s = foodRate r \<and> laborRate s = laborRate r \<and> rentRate s = rentRate r"
proof (induction n arbitrary: prev r)
  case 0
  then show ?case by simp
next
  case (Suc n)
  show ?case
  proof (cases "commit prev r = r")
    case True
    with Suc.prems show ?thesis by (simp add: Let_def)
  next
    case False
    with Suc.prems have "rerender n (Some r) (commit prev r) = Some s"
      by (simp add: Let_def)
    with Suc.IH [of "commit prev r" "Some r"] commit_manual_rates [OF Suc.prems(1), of prev]
    show ?thesis by simp
  qed
qed

lemma normalized_rates:
  "Normalized.food (normalized s) = clamp (foodRate s) (Fin 0) (Fin 0.95)"
  "Normalized.labor (normalized s) = clamp (laborRate s) (Fin 0) (Fin 0.95)"
  "Normalized.rent (normalized s) = clamp (rentRate s) (Fin 0) (Fin 0.95)"
  by (simp_all add: normalized_def Let_def)

text \<open>
  Claim C4. Whenever the manual rates are on, the rent rate the projection uses is the
  stored rent rate, clamped to \<open>[0, 0.95]\<close>: no effect writes the rent rate, whatever
  \<open>autoSetRentRate\<close>, the rent suggestion and the other inputs are, so after the effects
  have settled (which they do within three renders) the projection still uses it.
\<close>

theorem C4_manual_rent_rate:
  assumes "manualRates r"
  shows "Normalized.rent (normalized r) = clamp (rentRate r) (Fin 0) (Fin 0.95)
     \<and> rentRate (commit prev r) = rentRate r
     \<and> (\<exists>s. rerender (Suc (Suc (Suc 0))) prev r = Some s)
     \<and> (\<forall>n s. rerender n prev r = Some s \<longrightarrow>
           rentRate s = rentRate r
           \<and> Normalized.rent (normalized s) = clamp (rentRate r) (Fin 0) (Fin 0.95))"
  using assms rerender_settles [of prev r] commit_manual_rates(3) [of r prev]
    rerender_manual_rates [of r _ prev]
  by (simp add: normalized_rates)

theorem C4_manual_rent_rate_witness:
  "manualRates manual_typed \<and> autoSetRentRate manual_typed
   \<and> rentRateSuggested (rentSuggestion manual_typed) = Fin (55 / 1352)
   \<and> rerender (Suc (Suc (Suc 0))) (Some manual_on) (manual_typed\<lparr>rentRate := Fin 0.2\<rparr>)
       = Some (manual_typed\<lparr>rentRate := Fin 0.2\<rparr>)
   \<and> Normalized.rent (normalized (manual_typed\<lparr>rentRate := Fin 0.2\<rparr>)) = Fin 0.2"
proof -
  have m: "manualRates (manual_typed\<lparr>rentRate := Fin 0.2\<rparr>)"
    by (simp add: example_defs)
  have a: "manualRates manual_typed \<and> autoSetRentRate manual_typed
      \<and> rentRateSuggested (rentSuggestion manual_typed) = Fin (55 / 1352)"
    by (simp add: eval_defs example_defs)
  have r: "rerender (Suc (Suc (Suc 0))) (Some manual_on) (manual_typed\<lparr>rentRate := Fin 0.2\<rparr>)
       = Some (manual_typed\<lparr>rentRate := Fin 0.2\<rparr>)"
    by (simp add: eval_defs example_defs)
  have "Normalized.rent (normalized (manual_typed\<lparr>rentRate := Fin 0.2\<rparr>))
      = clamp (rentRate (manual_typed\<lparr>rentRate := Fin 0.2\<rparr>)) (Fin 0) (Fin 0.95)"
    using C4_manual_rent_rate [OF m, of "Some manual_on"] by blast
  then have "Normalized.rent (normalized (manual_typed\<lparr>rentRate := Fin 0.2\<rparr>)) = Fin 0.2"
    by (simp add: clamp_Fin)
  with a r show ?thesis by blast
qed

lemma commit_no_sync:
  assumes "industry p = industry r" and "scenario p = scenario r"
  shows "\<exists>a x. commit (Some p) r = r\<lparr>area := a, rentRate := x\<rparr>"
proof -
  define s1 where "s1 = (if changed deps_detectArea (Some p) r then effect_detectArea r r else r)"
  have n: "\<not> changed deps_syncPreset (Some p) r"
    using assms by (simp add: deps_syncPreset_def)
  have c: "commit (Some p) r =
      (if changed deps_autoRent (Some p) r then effect_autoRent r s1 else s1)"
    using n by (simp add: commit_def s1_def Let_def)
  obtain a where a: "s1 = r\<lparr>area := a\<rparr>"
  proof (cases "changed deps_detectArea (Some p) r")
    case True
    then show ?thesis using effect_detectArea_frame [of r r] that by (auto simp: s1_def)
  next
    case False
    then have "s1 = r\<lparr>area := area r\<rparr>" by (simp add: s1_def)
    then show ?thesis using that by blast
  qed
  obtain y where y: "commit (Some p) r = s1\<lparr>rentRate := y\<rparr>"
  proof (cases "changed deps_autoRent (Some p) r")
    case True
    then show ?thesis using effect_autoRent_frame [of r s1] that by (auto simp: c)
  next
    case False
    then have "commit (Some p) r = s1\<lparr>rentRate := rentRate s1\<rparr>" by (simp add: c)
    then show ?thesis using that by blast
  qed
  have "commit (Some p) r = r\<lparr>area := a, rentRate := y\<rparr>"
    by (simp add: y a)
  then show ?thesis by blast
qed

lemma rerender_no_sync:
  "industry p = industry r \<Longrightarrow> scenario p = scenario r \<Longrightarrow>
   rerender n (Some p) r = Some s \<Longrightarrow>
     foodRate s = foodRate r \<and> laborRate s = laborRate r"
proof (induction n arbitrary: p r)
  case 0
  then show ?case by simp
next
  case (Suc n)
  obtain a x where c: "commit (Some p) r = r\<lparr>area := a, rentRate := x\<rparr>"
    using commit_no_sync [OF Suc.prems(1,2)] by blast
  show ?case
  proof (cases "commit (Some p) r = r")
    case True
    with Suc.prems show ?thesis by (simp add: Let_def)
  next
    case False
    with Suc.prems have "rerender n (Some r) (commit (Some p) r) = Some s"
      by (simp add: Let_def)
    with Suc.IH [of r "commit (Some p) r"] show ?thesis by (simp add: c)
  qed
qed

text \<open>
  Claim C5. The specification expects that switching the manual rates off re-derives
  the food and labor rates from the preset table. In the code, the effect that writes
  them depends on the industry and the scenario only, so it does not run when
  \<open>manualRates\<close> or \<open>autoSetRentRate\<close> is toggled. What holds of the code is this: after
  any event that leaves the industry and the scenario as they were, once the effects
  have settled, the stored food and labor rates are the ones from before the settling,
  and the projection uses them. The evaluation that follows the theorem runs the
  calculator from its first render: manual rates on, food rate 0.5 and labor rate 0.4
  typed, manual rates off. The projection then uses 0.5 and 0.4, while the preset table
  has 0.30 and 0.30 for the industry and scenario in force.
\<close>

theorem C5_rates_stale_after_toggle:
  assumes "industry p = industry r" and "scenario p = scenario r"
    and "rerender n (Some p) r = Some s"
  shows "foodRate s = foodRate r \<and> laborRate s = laborRate r
     \<and> Normalized.food (normalized s) = clamp (foodRate r) (Fin 0) (Fin 0.95)
     \<and> Normalized.labor (normalized s) = clamp (laborRate r) (Fin 0) (Fin 0.95)"
  using rerender_no_sync [OF assms] by (simp add: normalized_rates)

theorem C5_rates_stale_after_toggle_witness:
  "rerender (Suc (Suc (Suc 0))) None initialState = Some settled_initial
   \<and> rerender (Suc (Suc (Suc 0))) (Some settled_initial) manual_on = Some manual_on
   \<and> rerender (Suc (Suc (Suc 0))) (Some manual_on) manual_typed = Some manual_typed
   \<and> manual_off = manual_typed\<lparr>manualRates := False\<rparr>
   \<and> rerender (Suc (Suc (Suc 0))) (Some manual_typed) manual_off = Some manual_off
   \<and> manualRates manual_off = False
   \<and> Normalized.food (normalized manual_off) = Fin 0.5
   \<and> Rates.food (presetRates manual_off) = Fin 0.30
   \<and> Normalized.labor (normalized manual_off) = Fin 0.4
   \<and> Rates.labor (presetRates manual_off) = Fin 0.30"
proof -
  have mount: "rerender (Suc (Suc (Suc 0))) None initialState = Some settled_initial"
    by (simp add: eval_defs example_defs)
  have step1: "rerender (Suc (Suc (Suc 0))) (Some settled_initial) manual_on = Some manual_on"
    by (simp add: eval_defs example_defs)
  have step2: "rerender (Suc (Suc (Suc 0))) (Some manual_on) manual_typed = Some manual_typed"
    by (simp add: eval_defs example_defs)
  have step3: "rerender (Suc (Suc (Suc 0))) (Some manual_typed) manual_off = Some manual_off"
    by (simp add: eval_defs example_defs)
  have same: "industry manual_typed = industry manual_off"
    "scenario manual_typed = scenario manual_off"
    by (simp_all add: example_defs)
  have rates: "foodRate manual_off = Fin 0.5" "laborRate manual_off = Fin 0.4"
    "manualRates manual_off = False"
    "Rates.food (presetRates manual_off) = Fin 0.30"
    "Rates.labor (presetRates manual_off) = Fin 0.30"
    by (simp_all add: example_defs presetRates_def)
  have "Normalized.food (normalized manual_off) = Fin 0.5
      \<and> Normalized.labor (normalized manual_off) = Fin 0.4"
    using C5_rates_stale_after_toggle [OF same step3] by (simp add: rates clamp_Fin)
  with mount step1 step2 step3 rates show ?thesis
    by (simp add: manual_off_def)
qed

section \<open>Occupancy, turnover and the baseline switch\<close>

lemma rentSuggestion_occupancy:
  "areaLabel (rentSuggestion (s\<lparr>occupancy := oc, turnover := tv\<rparr>)) = areaLabel (rentSuggestion s)"
  "rentPerTsubo (rentSuggestion (s\<lparr>occupancy := oc, turnover := tv\<rparr>)) = rentPerTsubo (rentSuggestion s)"
  "tsubo (rentSuggestion (s\<lparr>occupancy := oc, turnover := tv\<rparr>)) = tsubo (rentSuggestion s)"
  "estimatedRentMonthly (rentSuggestion (s\<lparr>occupancy := oc, turnover := tv\<rparr>))
     = estimatedRentMonthly (rentSuggestion s)"
  by (simp_all add: rentSuggestion_def Let_def)

lemma normalized_occupancy:
  "Normalized.ppg (normalized (s\<lparr>occupancy := oc, turnover := tv\<rparr>)) = Normalized.ppg (normalized s)"
  "Normalized.seatsN (normalized (s\<lparr>occupancy := oc, turnover := tv\<rparr>)) = Normalized.seatsN (normalized s)"
  "addG (normalized (s\<lparr>occupancy := oc, turnover := tv\<rparr>)) = addG (normalized s)"
  "Normalized.days (normalized (s\<lparr>occupancy := oc, turnover := tv\<rparr>)) = Normalized.days (normalized s)"
  "Normalized.food (normalized (s\<lparr>occupancy := oc, turnover := tv\<rparr>)) = Normalized.food (normalized s)"
  "Normalized.labor (normalized (s\<lparr>occupancy := oc, turnover := tv\<rparr>)) = Normalized.labor (normalized s)"
  "Normalized.rent (normalized (s\<lparr>occupancy := oc, turnover := tv\<rparr>)) = Normalized.rent (normalized s)"
  "addRevenueDaily (normalized (s\<lparr>occupancy := oc, turnover := tv\<rparr>)) = addRevenueDaily (normalized s)"
  "addRevenueMonthly (normalized (s\<lparr>occupancy := oc, turnover := tv\<rparr>)) = addRevenueMonthly (normalized s)"
  "addGrossProfit (normalized (s\<lparr>occupancy := oc, turnover := tv\<rparr>)) = addGrossProfit (normalized s)"
  "addAfterFL (normalized (s\<lparr>occupancy := oc, turnover := tv\<rparr>)) = addAfterFL (normalized s)"
  "addAfterFLR (normalized (s\<lparr>occupancy := oc, turnover := tv\<rparr>)) = addAfterFLR (normalized s)"
  "roas (normalized (s\<lparr>occupancy := oc, turnover := tv\<rparr>)) = roas (normalized s)"
  "gpRoas (normalized (s\<lparr>occupancy := oc, turnover := tv\<rparr>)) = gpRoas (normalized s)"
  "breakevenGroupsPerDay_Gross (normalized (s\<lparr>occupancy := oc, turnover := tv\<rparr>))
     = breakevenGroupsPerDay_Gross (normalized s)"
  "fl (normalized (s\<lparr>occupancy := oc, turnover := tv\<rparr>)) = fl (normalized s)"
  "flr (normalized (s\<lparr>occupancy := oc, turnover := tv\<rparr>)) = flr (normalized s)"
  by (simp_all add: normalized_def baseline_def Let_def)

lemma useBaseline_unread:
  "baseline (s\<lparr>useBaseline := b\<rparr>) = baseline s"
  "rentSuggestion (s\<lparr>useBaseline := b\<rparr>) = rentSuggestion s"
  "normalized (s\<lparr>useBaseline := b\<rparr>) = normalized s"
  by (simp_all add: normalized_def rentSuggestion_def baseline_def Let_def)

text \<open>
  Two inputs with the baseline display off that differ in the occupancy only: the
  suggested rent ratios differ, and so do the rent rates in force after the first render
  has settled.
\<close>

theorem C8_counterexample:
  "useBaseline no_baseline = False \<and> useBaseline no_baseline_busy = False
   \<and> no_baseline_busy = no_baseline\<lparr>occupancy := Fin 0.85\<rparr>
   \<and> rentRateSuggested (rentSuggestion no_baseline) = Fin (55 / 1352)
   \<and> rentRateSuggested (rentSuggestion no_baseline_busy) = Fin (55 / 1768)
   \<and> rentRateSuggested (rentSuggestion no_baseline)
       \<noteq> rentRateSuggested (rentSuggestion no_baseline_busy)
   \<and> rerender (Suc (Suc (Suc 0))) None no_baseline
       = Some (no_baseline\<lparr>rentRate := Fin (55 / 1352)\<rparr>)
   \<and> rerender (Suc (Suc (Suc 0))) None no_baseline_busy
       = Some (no_baseline_busy\<lparr>rentRate := Fin (55 / 1768)\<rparr>)
   \<and> Normalized.rent (normalized (no_baseline\<lparr>rentRate := Fin (55 / 1352)\<rparr>))
       \<noteq> Normalized.rent (normalized (no_baseline_busy\<lparr>rentRate := Fin (55 / 1768)\<rparr>))"
proof -
  have flags: "useBaseline no_baseline = False" "useBaseline no_baseline_busy = False"
    by (simp_all add: example_defs)
  have s1: "rentRateSuggested (rentSuggestion no_baseline) = Fin (55 / 1352)"
    by (simp add: eval_defs example_defs)
  have s2: "rentRateSuggested (rentSuggestion no_baseline_busy) = Fin (55 / 1768)"
    by (simp add: eval_defs example_defs)
  have r1: "rerender (Suc (Suc (Suc 0))) None no_baseline
       = Some (no_baseline\<lparr>rentRate := Fin (55 / 1352)\<rparr>)"
    by (simp add: eval_defs example_defs)
  have r2: "rerender (Suc (Suc (Suc 0))) None no_baseline_busy
       = Some (no_baseline_busy\<lparr>rentRate := Fin (55 / 1768)\<rparr>)"
    by (simp add: eval_defs example_defs)
  have n: "Normalized.rent (normalized (no_baseline\<lparr>rentRate := Fin (55 / 1352)\<rparr>))
       \<noteq> Normalized.rent (normalized (no_baseline_busy\<lparr>rentRate := Fin (55 / 1768)\<rparr>))"
    by (simp add: normalized_rates clamp_Fin)
  show ?thesis
    using flags s1 s2 r1 r2 n by (simp add: no_baseline_busy_def)
qed

text \<open>
  Claim C8, as amended. No computation reads \<open>useBaseline\<close>: the switch decides only
  what the page and the summary text show. For two inputs that differ only in occupancy
  and turnover, whatever \<open>useBaseline\<close> is, the area label, the rent per tsubo, the
  estimated floor area, the estimated monthly rent, and the projection's clamped rates and
  incremental figures computed from the same stored rates are identical. The suggested
  rent ratio divides by the seat-based monthly revenue, so it, a rent rate auto-set from
  it and the baseline figures do depend on occupancy and turnover; the evaluation below
  shows two such inputs with the baseline display off, a different suggested ratio and,
  after the effects have settled, a different effective rent rate.
\<close>

theorem C8_occupancy_turnover_scope:
  "baseline (s\<lparr>useBaseline := b\<rparr>) = baseline s
   \<and> rentSuggestion (s\<lparr>useBaseline := b\<rparr>) = rentSuggestion s
   \<and> normalized (s\<lparr>useBaseline := b\<rparr>) = normalized s
   \<and> areaLabel (rentSuggestion (s\<lparr>occupancy := oc, turnover := tv\<rparr>)) = areaLabel (rentSuggestion s)
   \<and> rentPerTsubo (rentSuggestion (s\<lparr>occupancy := oc, turnover := tv\<rparr>))
       = rentPerTsubo (rentSuggestion s)
   \<and> tsubo (rentSuggestion (s\<lparr>occupancy := oc, turnover := tv\<rparr>)) = tsubo (rentSuggestion s)
   \<and> estimatedRentMonthly (rentSuggestion (s\<lparr>occupancy := oc, turnover := tv\<rparr>))
       = estimatedRentMonthly (rentSuggestion s)
   \<and> Normalized.food (normalized (s\<lparr>occupancy := oc, turnover := tv\<rparr>))
       = Normalized.food (normalized s)
   \<and> Normalized.labor (normalized (s\<lparr>occupancy := oc, turnover := tv\<rparr>))
       = Normalized.labor (normalized s)
   \<and> Normalized.rent (normalized (s\<lparr>occupancy := oc, turnover := tv\<rparr>))
       = Normalized.rent (normalized s)
   \<and> addRevenueDaily (normalized (s\<lparr>occupancy := oc, turnover := tv\<rparr>))
       = addRevenueDaily (normalized s)
   \<and> addRevenueMonthly (normalized (s\<lparr>occupancy := oc, turnover := tv\<rparr>))
       = addRevenueMonthly (normalized s)
   \<and> addGrossProfit (normalized (s\<lparr>occupancy := oc, turnover := tv\<rparr>))
       = addGrossProfit (normalized s)
   \<and> addAfterFL (normalized (s\<lparr>occupancy := oc, turnover := tv\<rparr>)) = addAfterFL (normalized s)
   \<and> addAfterFLR (normalized (s\<lparr>occupancy := oc, turnover := tv\<rparr>))
       = addAfterFLR (normalized s)
   \<and> roas (normalized (s\<lparr>occupancy := oc, turnover := tv\<rparr>)) = roas (normalized s)
   \<and> gpRoas (normalized (s\<lparr>occupancy := oc, turnover := tv\<rparr>)) = gpRoas (normalized s)
   \<and> breakevenGroupsPerDay_Gross (normalized (s\<lparr>occupancy := oc, turnover := tv\<rparr>))
       = breakevenGroupsPerDay_Gross (normalized s)
   \<and> fl (normalized (s\<lparr>occupancy := oc, turnover := tv\<rparr>)) = fl (normalized s)
   \<and> flr (normalized (s\<lparr>occupancy := oc, turnover := tv\<rparr>)) = flr (normalized s)"
  by (simp only: useBaseline_unread rentSuggestion_occupancy normalized_occupancy simp_thms)

theorem C8_occupancy_turnover_scope_witness:
  "estimatedRentMonthly (rentSuggestion no_baseline_busy) = Fin 247500
   \<and> addRevenueMonthly (normalized no_baseline_busy) = Fin 312000
   \<and> roas (normalized no_baseline_busy) = Fin 3.12"
proof -
  have e: "no_baseline_busy
      = initialState\<lparr>occupancy := Fin 0.85, turnover := Fin 2.0\<rparr>\<lparr>useBaseline := False\<rparr>"
    by (simp add: example_defs)
  have v: "estimatedRentMonthly (rentSuggestion initialState) = Fin 247500"
    "addRevenueMonthly (normalized initialState) = Fin 312000"
    "roas (normalized initialState) = Fin 3.12"
    by (simp_all add: eval_defs normalized_def js_sub_def initialState_def)
  show ?thesis
    using C8_occupancy_turnover_scope
      [where s = "initialState\<lparr>occupancy := Fin 0.85, turnover := Fin 2.0\<rparr>" and b = False]
      C8_occupancy_turnover_scope [where s = initialState and oc = "Fin 0.85" and tv = "Fin 2.0"]
    unfolding e by (simp only: v simp_thms)
qed

end
